theory Spec2Isabelle
  imports Main
begin

section \<open>Values of the JavaScript runtime\<close>

text \<open>
  Strings are byte lists: the UTF-8 encoding of a JavaScript string, or the bytes of a
  Buffer or of an upstream body before they are decoded. A parsed JSON
  document is a \<open>json\<close> value; an object is the list of its own properties, each key
  once (\<open>JSON.parse\<close> keeps the last of duplicate keys). Of a number only its type is
  ever inspected; it is kept as mantissa and decimal exponent.
\<close>

datatype json =
    JNull
  | JBool bool
  | JNum int int
  | JStr string
  | JArr "json list"
  | JObj "(string \<times> json) list"

text \<open>
  A thrown value: the handlers only ask \<open>error instanceof Error\<close> and read
  \<open>error.message\<close>.
\<close>

datatype thrown = ErrorObj string | NonError

text \<open>\<open>error instanceof Error ? error.message : fallback\<close>\<close>

fun message_of :: "thrown \<Rightarrow> string \<Rightarrow> string" where
  "message_of (ErrorObj m) fallback = m"
| "message_of NonError fallback = fallback"

text \<open>What the handlers read of a WHATWG \<open>URL\<close> object.\<close>

record parsed_url =
  search :: string
  searchParams :: "(string \<times> string) list"

text \<open>The arguments of a \<open>fetch\<close> call and what the handlers read of its result.\<close>

record upstream_request =
  target :: string
  fetch_method :: "string option"
  fetch_headers :: "(string \<times> string) list"
  fetch_body :: "string option"

text \<open>
  Of an upstream response: its status, its content type header, and what reading its
  body to the end gives (\<open>Inl\<close>: the read fails; \<open>Inr\<close>: the bytes of the body).
\<close>

record upstream_response =
  status :: nat
  content_type :: "string option"
  body_bytes :: "thrown + string"

text \<open>
  The library functions the handlers call are parameters of the model:
  \<open>JSON.parse\<close> (\<open>Inl\<close> is the message of its SyntaxError), \<open>new URL(input, base)\<close>
  (\<open>Inl\<close> is the message of its TypeError),
  \<open>createHmac('sha256', key).update(data).digest('base64')\<close>, \<open>fetch\<close>
  (\<open>Inl\<close> is the rejection), and the two decoders of bytes into strings:
  \<open>Buffer_toString\<close> is what \<open>data += chunk\<close> makes of one chunk (invalid and
  incomplete sequences replaced by U+FFFD), \<open>utf8_decode\<close> is the decoder of
  \<open>Response.text()\<close> (a byte order mark dropped, invalid sequences replaced).
\<close>

record runtime =
  JSON_parse :: "string \<Rightarrow> string + json"
  new_URL :: "string \<Rightarrow> string option \<Rightarrow> string + parsed_url"
  hmac_sha256_base64 :: "string \<Rightarrow> string \<Rightarrow> string"
  fetch :: "upstream_request \<Rightarrow> thrown + upstream_response"
  Buffer_toString :: "string \<Rightarrow> string"
  utf8_decode :: "string \<Rightarrow> string"

text \<open>
  What a handler hands to the response object: the status, the headers it sets with
  \<open>setHeader\<close>, in order, and the body it passes to \<open>end\<close>, \<open>send\<close> or \<open>json\<close> (empty
  for \<open>end()\<close>). The model stops at these calls. What Node and the platform make of them
  on the wire is not part of it: Node sends no body with a 204 or a 304, and the
  platform's \<open>send\<close> adds a charset to the content type of a string body.
\<close>

record response =
  statusCode :: nat
  headers :: "(string \<times> string) list"
  body :: string

text \<open>What a handler does besides answering: it reads the request body, it calls upstream.\<close>

datatype effect = ReadBody | Fetch upstream_request

fun is_fetch :: "effect \<Rightarrow> bool" where
  "is_fetch (Fetch r) = True"
| "is_fetch ReadBody = False"

section \<open>JSON.stringify on the objects the handlers send\<close>

definition hex_digit :: "nat \<Rightarrow> char" where
  "hex_digit n = ''0123456789abcdef'' ! (n mod 16)"

text \<open>QuoteJSONString of ECMAScript, one code unit at a time.\<close>

definition quote_char :: "char \<Rightarrow> string" where
  "quote_char c =
     (if c = CHR 0x08 then [CHR 0x5C, CHR ''b'']
      else if c = CHR 0x09 then [CHR 0x5C, CHR ''t'']
      else if c = CHR 0x0A then [CHR 0x5C, CHR ''n'']
      else if c = CHR 0x0C then [CHR 0x5C, CHR ''f'']
      else if c = CHR 0x0D then [CHR 0x5C, CHR ''r'']
      else if c = CHR 0x22 then [CHR 0x5C, CHR 0x22]
      else if c = CHR 0x5C then [CHR 0x5C, CHR 0x5C]
      else if (of_char c :: nat) < 32
        then [CHR 0x5C, CHR ''u'', CHR ''0'', CHR ''0'',
              hex_digit (of_char c div 16), hex_digit (of_char c)]
      else [c])"

definition quote_string :: "string \<Rightarrow> string" where
  "quote_string s = [CHR 0x22] @ concat (map quote_char s) @ [CHR 0x22]"

fun join :: "string \<Rightarrow> string list \<Rightarrow> string" where
  "join sep [] = []"
| "join sep [x] = x"
| "join sep (x # y # ys) = x @ sep @ join sep (y # ys)"

text \<open>\<open>JSON.stringify\<close> of an object whose property values are all strings.\<close>

definition JSON_stringify :: "(string \<times> string) list \<Rightarrow> string" where
  "JSON_stringify props =
     ''{'' @ join '','' (map (\<lambda>(k, v). quote_string k @ '':'' @ quote_string v) props) @ ''}''"

section \<open>Truthiness and property access\<close>

text \<open>\<open>!s\<close> for a value that is a string or undefined.\<close>

fun falsy :: "string option \<Rightarrow> bool" where
  "falsy None = True"
| "falsy (Some s) = (s = [])"

text \<open>
  \<open>value.name\<close> for one of the names the handlers read (\<open>url\<close>,
  \<open>signedTransaction\<close>, \<open>requestId\<close>; none is a property of a prototype): reading a
  property of \<open>null\<close> throws a TypeError, a missing property is \<open>undefined\<close>.
\<close>

fun get_prop :: "json \<Rightarrow> string \<Rightarrow> thrown + json option" where
  "get_prop JNull name =
     Inl (ErrorObj (''Cannot read properties of null (reading '' @ [CHR 0x27] @ name @ [CHR 0x27] @ '')''))"
| "get_prop (JObj props) name = Inr (map_of props name)"
| "get_prop v name = Inr None"

text \<open>\<open>typeof v === 'string' ? v : undefined\<close>\<close>

fun string_or_undefined :: "json option \<Rightarrow> string option" where
  "string_or_undefined (Some (JStr s)) = Some s"
| "string_or_undefined v = None"

section \<open>The dev-server middlewares\<close>

definition JUPITER_ULTRA_BASE_URL :: string where
  "JUPITER_ULTRA_BASE_URL = ''https://api.jup.ag/ultra/v1''"

text \<open>
  A Connect request: its method (\<open>req.method\<close>), its url, and what the body stream delivers
  (\<open>Inl\<close>: the stream's error event; \<open>Inr\<close>: the chunks up to the end event, each a
  Buffer of bytes, cut wherever the transport cut the body).
\<close>

record incoming =
  http_method :: "string option"
  url :: "string option"
  body_stream :: "thrown + string list"

text \<open>
  \<open>readBody\<close>: \<open>data += chunk\<close> turns each chunk into a string on its own before it is
  appended, so a character whose bytes lie in two chunks is not put together again.
\<close>

definition readBody :: "runtime \<Rightarrow> incoming \<Rightarrow> thrown + json" where
  "readBody rt req =
     (case body_stream req of
        Inl e \<Rightarrow> Inl e
      | Inr chunks \<Rightarrow>
          (let data = concat (map (Buffer_toString rt) chunks) in
           if data \<noteq> [] then
             (case JSON_parse rt data of Inl m \<Rightarrow> Inl (ErrorObj m) | Inr v \<Rightarrow> Inr v)
           else Inr (JObj [])))"

definition sendJson :: "nat \<Rightarrow> (string \<times> string) list \<Rightarrow> response" where
  "sendJson st pl =
     \<lparr>statusCode = st, headers = [(''Content-Type'', ''application/json'')],
      body = JSON_stringify pl\<rparr>"

text \<open>The answer to a method the endpoint does not accept: \<open>res.end()\<close> sends no body.\<close>

definition method_not_allowed :: "string \<Rightarrow> response" where
  "method_not_allowed m = \<lparr>statusCode = 405, headers = [(''Allow'', m)], body = []\<rparr>"

text \<open>The \<open>try\<close> block of the signing endpoint; \<open>Inl\<close> is what it throws.\<close>

definition sign_try :: "runtime \<Rightarrow> string \<Rightarrow> incoming \<Rightarrow> thrown + response" where
  "sign_try rt secret req =
     (case readBody rt req of
        Inl e \<Rightarrow> Inl e
      | Inr b \<Rightarrow>
          (case get_prop b ''url'' of
             Inl e \<Rightarrow> Inl e
           | Inr v \<Rightarrow>
               (let u = string_or_undefined v in
                if falsy u then
                  Inr (sendJson 400 [(''error'', ''Missing url in MoonPay signature payload.'')])
                else
                  (case new_URL rt (the u) None of
                     Inl m \<Rightarrow> Inl (ErrorObj m)
                   | Inr parsed \<Rightarrow>
                       (let queryString = search parsed;
                            signature = hmac_sha256_base64 rt secret queryString
                        in Inr (sendJson 200 [(''signature'', signature)]))))))"

definition registerMoonPaySignatureEndpoint ::
  "runtime \<Rightarrow> string option \<Rightarrow> incoming \<Rightarrow> response \<times> effect list" where
  "registerMoonPaySignatureEndpoint rt secret req =
     (if http_method req \<noteq> Some ''POST'' then (method_not_allowed ''POST'', [])
      else if falsy secret then
        (sendJson 500 [(''error'', ''MoonPay secret key is not configured on the server.'')], [])
      else
        (case sign_try rt (the secret) req of
           Inr r \<Rightarrow> (r, [ReadBody])
         | Inl e \<Rightarrow>
             (sendJson 500 [(''error'', message_of e ''MoonPay signature generation failed.'')],
              [ReadBody])))"

text \<open>
  \<open>upstream.text()\<close>: the body is read to its end, which may fail, and its bytes are
  decoded into a string.
\<close>

definition Response_text :: "runtime \<Rightarrow> upstream_response \<Rightarrow> thrown + string" where
  "Response_text rt upstream =
     (case body_bytes upstream of Inl e \<Rightarrow> Inl e | Inr bytes \<Rightarrow> Inr (utf8_decode rt bytes))"

text \<open>
  \<open>forwardJupiterResponse\<close>: \<open>upstream.text()\<close> may reject; \<open>??\<close> replaces only a
  missing content type; \<open>body || '{}'\<close> replaces only the empty text. The status, the
  header and the text are handed to \<open>res\<close>.
\<close>

definition forwardJupiterResponse :: "runtime \<Rightarrow> upstream_response \<Rightarrow> thrown + response" where
  "forwardJupiterResponse rt upstream =
     (case Response_text rt upstream of
        Inl e \<Rightarrow> Inl e
      | Inr b \<Rightarrow>
          (let contentType =
                 (case content_type upstream of None \<Rightarrow> ''application/json'' | Some c \<Rightarrow> c)
           in Inr \<lparr>statusCode = status upstream,
                   headers = [(''Content-Type'', contentType)],
                   body = (if b \<noteq> [] then b else ''{}'')\<rparr>))"

text \<open>\<open>ensureApiKey\<close>: \<open>Inl\<close> is the response it has sent when it returns undefined.\<close>

definition ensureApiKey :: "string option \<Rightarrow> response + string" where
  "ensureApiKey apiKey =
     (if falsy apiKey then
        Inl (sendJson 500 [(''error'',
          ''Jupiter Ultra API key is not configured on the server. Set JUPITER_ULTRA_API_KEY in your env.'')])
      else Inr (the apiKey))"

definition requiredParams :: "string list" where
  "requiredParams = [''inputMint'', ''outputMint'', ''amount'', ''taker'']"

text \<open>\<open>url.searchParams.get(name)\<close>: the first value of that name, or null.\<close>

definition searchParams_get :: "parsed_url \<Rightarrow> string \<Rightarrow> string option" where
  "searchParams_get u name = map_of (searchParams u) name"

text \<open>The \<open>for\<close> loop over the required parameters: the first one that is missing.\<close>

fun first_missing :: "parsed_url \<Rightarrow> string list \<Rightarrow> string option" where
  "first_missing u [] = None"
| "first_missing u (param # params) =
     (if falsy (searchParams_get u param) then Some param else first_missing u params)"

text \<open>A \<open>fetch\<close> followed by the relay of its response, with the call recorded.\<close>

definition fetch_and_forward ::
  "runtime \<Rightarrow> upstream_request \<Rightarrow> (thrown + response) \<times> effect list" where
  "fetch_and_forward rt r =
     (case fetch rt r of
        Inl e \<Rightarrow> (Inl e, [Fetch r])
      | Inr upstream \<Rightarrow> (forwardJupiterResponse rt upstream, [Fetch r]))"

definition order_try ::
  "runtime \<Rightarrow> string \<Rightarrow> incoming \<Rightarrow> (thrown + response) \<times> effect list" where
  "order_try rt key req =
     (case new_URL rt (case url req of None \<Rightarrow> [] | Some u \<Rightarrow> u) (Some ''http://localhost'') of
        Inl m \<Rightarrow> (Inl (ErrorObj m), [])
      | Inr u \<Rightarrow>
          (case first_missing u requiredParams of
             Some param \<Rightarrow>
               (Inr (sendJson 400 [(''error'', ''Missing required parameter: '' @ param)]), [])
           | None \<Rightarrow>
               fetch_and_forward rt
                 \<lparr>target = JUPITER_ULTRA_BASE_URL @ ''/order'' @ search u,
                  fetch_method = Some ''GET'',
                  fetch_headers = [(''x-api-key'', key)],
                  fetch_body = None\<rparr>))"

text \<open>The \<open>catch\<close> of a proxy: a JSON 500 with the message of what was thrown.\<close>

definition catch_500 ::
  "string \<Rightarrow> (thrown + response) \<times> effect list \<Rightarrow> response \<times> effect list" where
  "catch_500 fallback r =
     (case fst r of
        Inr res \<Rightarrow> (res, snd r)
      | Inl e \<Rightarrow> (sendJson 500 [(''error'', message_of e fallback)], snd r))"

definition jupiter_order ::
  "runtime \<Rightarrow> string option \<Rightarrow> incoming \<Rightarrow> response \<times> effect list" where
  "jupiter_order rt apiKey req =
     (if http_method req \<noteq> Some ''GET'' then (method_not_allowed ''GET'', [])
      else
        (case ensureApiKey apiKey of
           Inl res \<Rightarrow> (res, [])
         | Inr key \<Rightarrow> catch_500 ''Jupiter order request failed.'' (order_try rt key req)))"

definition execute_try ::
  "runtime \<Rightarrow> string \<Rightarrow> incoming \<Rightarrow> (thrown + response) \<times> effect list" where
  "execute_try rt key req =
     (case readBody rt req of
        Inl e \<Rightarrow> (Inl e, [ReadBody])
      | Inr b \<Rightarrow>
          (case get_prop b ''signedTransaction'' of
             Inl e \<Rightarrow> (Inl e, [ReadBody])
           | Inr st \<Rightarrow>
               (case get_prop b ''requestId'' of
                  Inl e \<Rightarrow> (Inl e, [ReadBody])
                | Inr rid \<Rightarrow>
                    (let signedTransaction = string_or_undefined st;
                         requestId = string_or_undefined rid
                     in if falsy signedTransaction \<or> falsy requestId then
                          (Inr (sendJson 400 [(''error'',
                             ''signedTransaction and requestId are required in the Jupiter execute payload.'')]),
                           [ReadBody])
                        else
                          (let r = fetch_and_forward rt
                                 \<lparr>target = JUPITER_ULTRA_BASE_URL @ ''/execute'',
                                  fetch_method = Some ''POST'',
                                  fetch_headers = [(''x-api-key'', key),
                                                   (''Content-Type'', ''application/json'')],
                                  fetch_body = Some (JSON_stringify
                                    [(''signedTransaction'', the signedTransaction),
                                     (''requestId'', the requestId)])\<rparr>
                           in (fst r, ReadBody # snd r))))))"

definition jupiter_execute ::
  "runtime \<Rightarrow> string option \<Rightarrow> incoming \<Rightarrow> response \<times> effect list" where
  "jupiter_execute rt apiKey req =
     (if http_method req \<noteq> Some ''POST'' then (method_not_allowed ''POST'', [])
      else
        (case ensureApiKey apiKey of
           Inl res \<Rightarrow> (res, [])
         | Inr key \<Rightarrow> catch_500 ''Jupiter execute request failed.'' (execute_try rt key req)))"

section \<open>The serverless handlers\<close>

text \<open>
  The handlers never read \<open>req.url\<close>; the platform parses it into \<open>req.query\<close>, whose
  values are strings or, for a parameter given more than once, arrays of strings.
  \<open>req.body\<close> is what the platform makes of the body under the request's content type:
  undefined (\<open>None\<close>), a parsed JSON value, or a string (the empty string for a POST
  without a body); reading it may throw. The environment maps a variable's name to its
  value.
\<close>

datatype qvalue = QStr string | QArr "string list"

record vercel_request =
  vmethod :: "string option"
  vurl :: "string option"
  query :: "string \<Rightarrow> qvalue option"
  vbody :: "thrown + json option"

definition getApiKey :: "(string \<Rightarrow> string option) \<Rightarrow> string option" where
  "getApiKey env =
     (case env ''JUPITER_ULTRA_API_KEY'' of
        Some k \<Rightarrow> Some k
      | None \<Rightarrow> env ''VITE_JUPITER_ULTRA_API_KEY'')"

text \<open>
  \<open>res.status(st).json(payload)\<close>: the platform's helper sends
  \<open>JSON.stringify(payload)\<close>. The handler sets no header here; the headers that the
  platform and Node add on their own are not part of a response of the model.
\<close>

definition status_json :: "nat \<Rightarrow> (string \<times> string) list \<Rightarrow> response" where
  "status_json st pl = \<lparr>statusCode = st, headers = [], body = JSON_stringify pl\<rparr>"

text \<open>\<open>forwardResponse\<close> is the relay of the middlewares, written once more.\<close>

definition forwardResponse :: "runtime \<Rightarrow> upstream_response \<Rightarrow> thrown + response" where
  "forwardResponse rt upstream =
     (case Response_text rt upstream of
        Inl e \<Rightarrow> Inl e
      | Inr b \<Rightarrow>
          (let contentType =
                 (case content_type upstream of None \<Rightarrow> ''application/json'' | Some c \<Rightarrow> c)
           in Inr \<lparr>statusCode = status upstream,
                   headers = [(''Content-Type'', contentType)],
                   body = (if b \<noteq> [] then b else ''{}'')\<rparr>))"

definition fetch_and_forwardResponse ::
  "runtime \<Rightarrow> upstream_request \<Rightarrow> (thrown + response) \<times> effect list" where
  "fetch_and_forwardResponse rt r =
     (case fetch rt r of
        Inl e \<Rightarrow> (Inl e, [Fetch r])
      | Inr upstream \<Rightarrow> (forwardResponse rt upstream, [Fetch r]))"

definition catch_json_500 ::
  "string \<Rightarrow> (thrown + response) \<times> effect list \<Rightarrow> response \<times> effect list" where
  "catch_json_500 fallback r =
     (case fst r of
        Inr res \<Rightarrow> (res, snd r)
      | Inl e \<Rightarrow> (status_json 500 [(''error'', message_of e fallback)], snd r))"

text \<open>The filter of the order handler: an empty array, or a falsy value.\<close>

fun is_missing :: "qvalue option \<Rightarrow> bool" where
  "is_missing (Some (QArr xs)) = (length xs = 0)"
| "is_missing (Some (QStr s)) = (s = [])"
| "is_missing None = True"

text \<open>\<open>String(v)\<close>: an array is joined with commas.\<close>

fun String_of :: "qvalue option \<Rightarrow> string" where
  "String_of None = ''undefined''"
| "String_of (Some (QStr s)) = s"
| "String_of (Some (QArr xs)) = join '','' xs"

text \<open>
  \<open>URLSearchParams.toString()\<close>: the application/x-www-form-urlencoded serializer,
  byte by byte.
\<close>

definition HEX_digit :: "nat \<Rightarrow> char" where
  "HEX_digit n = ''0123456789ABCDEF'' ! (n mod 16)"

definition urlencode_byte :: "char \<Rightarrow> string" where
  "urlencode_byte c =
     (if c = CHR '' '' then ''+''
      else if c \<in> set ''ABCDEFGHIJKLMNOPQRSTUVWXYZabcdefghijklmnopqrstuvwxyz0123456789*-._''
        then [c]
      else [CHR ''%'', HEX_digit (of_char c div 16), HEX_digit (of_char c)])"

definition urlencode :: "string \<Rightarrow> string" where
  "urlencode s = concat (map urlencode_byte s)"

definition URLSearchParams_toString :: "(string \<times> string) list \<Rightarrow> string" where
  "URLSearchParams_toString ps =
     join ''&'' (map (\<lambda>(k, v). urlencode k @ ''='' @ urlencode v) ps)"

definition vercel_order ::
  "runtime \<Rightarrow> (string \<Rightarrow> string option) \<Rightarrow> vercel_request \<Rightarrow> response \<times> effect list" where
  "vercel_order rt env req =
     (if vmethod req \<noteq> Some ''GET'' then (method_not_allowed ''GET'', [])
      else
        (let apiKey = getApiKey env in
         if falsy apiKey then
           (status_json 500 [(''error'',
              ''Jupiter Ultra API key missing. Set JUPITER_ULTRA_API_KEY in Vercel env.'')], [])
         else
           (let missing = filter (\<lambda>key. is_missing (query req key))
                            [''inputMint'', ''outputMint'', ''amount'', ''taker'']
            in if length missing > 0 then
                 (status_json 400 [(''error'',
                    ''Missing required parameter(s): '' @ join '', '' missing)], [])
               else
                 catch_json_500 ''Jupiter order request failed.''
                   (fetch_and_forwardResponse rt
                      \<lparr>target = JUPITER_ULTRA_BASE_URL @ ''/order?'' @
                         URLSearchParams_toString
                           [(''inputMint'', String_of (query req ''inputMint'')),
                            (''outputMint'', String_of (query req ''outputMint'')),
                            (''amount'', String_of (query req ''amount'')),
                            (''taker'', String_of (query req ''taker''))],
                       fetch_method = None,
                       fetch_headers = [(''x-api-key'', the apiKey)],
                       fetch_body = None\<rparr>))))"

text \<open>
  \<open>parseBody\<close>: a truthy object is taken as it is (an array or an object; \<open>null\<close> is
  falsy), a string is parsed, anything else gives the empty object.
\<close>

definition parseBody :: "runtime \<Rightarrow> vercel_request \<Rightarrow> thrown + json" where
  "parseBody rt req =
     (case vbody req of
        Inl e \<Rightarrow> Inl e
      | Inr (Some (JObj props)) \<Rightarrow> Inr (JObj props)
      | Inr (Some (JArr xs)) \<Rightarrow> Inr (JArr xs)
      | Inr (Some (JStr s)) \<Rightarrow>
          (case JSON_parse rt s of Inl m \<Rightarrow> Inl (ErrorObj m) | Inr v \<Rightarrow> Inr v)
      | Inr other \<Rightarrow> Inr (JObj []))"

definition vercel_execute_try ::
  "runtime \<Rightarrow> string \<Rightarrow> vercel_request \<Rightarrow> (thrown + response) \<times> effect list" where
  "vercel_execute_try rt apiKey req =
     (case parseBody rt req of
        Inl e \<Rightarrow> (Inl e, [ReadBody])
      | Inr b \<Rightarrow>
          (case get_prop b ''signedTransaction'' of
             Inl e \<Rightarrow> (Inl e, [ReadBody])
           | Inr st \<Rightarrow>
               (case get_prop b ''requestId'' of
                  Inl e \<Rightarrow> (Inl e, [ReadBody])
                | Inr rid \<Rightarrow>
                    (let signedTransaction = string_or_undefined st;
                         requestId = string_or_undefined rid
                     in if falsy signedTransaction \<or> falsy requestId then
                          (Inr (status_json 400 [(''error'',
                             ''signedTransaction and requestId are required in the execute payload.'')]),
                           [ReadBody])
                        else
                          (let r = fetch_and_forwardResponse rt
                                 \<lparr>target = JUPITER_ULTRA_BASE_URL @ ''/execute'',
                                  fetch_method = Some ''POST'',
                                  fetch_headers = [(''x-api-key'', apiKey),
                                                   (''Content-Type'', ''application/json'')],
                                  fetch_body = Some (JSON_stringify
                                    [(''signedTransaction'', the signedTransaction),
                                     (''requestId'', the requestId)])\<rparr>
                           in (fst r, ReadBody # snd r))))))"

definition vercel_execute ::
  "runtime \<Rightarrow> (string \<Rightarrow> string option) \<Rightarrow> vercel_request \<Rightarrow> response \<times> effect list" where
  "vercel_execute rt env req =
     (if vmethod req \<noteq> Some ''POST'' then (method_not_allowed ''POST'', [])
      else
        (let apiKey = getApiKey env in
         if falsy apiKey then
           (status_json 500 [(''error'',
              ''Jupiter Ultra API key missing. Set JUPITER_ULTRA_API_KEY in Vercel env.'')], [])
         else catch_json_500 ''Jupiter execute request failed.''
                (vercel_execute_try rt (the apiKey) req)))"

section \<open>Notions the properties are stated with\<close>

text \<open>The method of an upstream call: \<open>fetch\<close> sends a GET when none is given.\<close>

definition effective_method :: "upstream_request \<Rightarrow> string" where
  "effective_method r = (case fetch_method r of None \<Rightarrow> ''GET'' | Some m \<Rightarrow> m)"


section \<open>A runtime fixed at the inputs of the examples\<close>

text \<open>
  What Node answers at the inputs the examples below use (the parser's message is the
  one of V8 for a text that ends early); at any other input the tables answer with a
  failure. The digests are the base64 HMAC-SHA256 of the three query strings under the
  key \<open>k\<close> (a key is padded with zero bytes to the block size, so the key \<open>k\<close> followed
  by a zero byte gives the same digests).
\<close>

text \<open>The UTF-8 encoding of U+FFFD, and the two bytes of the letter e with an acute accent.\<close>

definition replacement_character :: string where
  "replacement_character = [CHR 0xEF, CHR 0xBF, CHR 0xBD]"

definition e_acute :: string where
  "e_acute = [CHR 0xC3, CHR 0xA9]"

definition sample_JSON_parse :: "string \<Rightarrow> string + json" where
  \<open>sample_JSON_parse s =
     (if s = ''{"url":"https://x.example/pay?a=1&b=2"}''
        then Inr (JObj [(''url'', JStr ''https://x.example/pay?a=1&b=2'')])
      else if s = ''{"url":"not a url"}''
        then Inr (JObj [(''url'', JStr ''not a url'')])
      else if s = ''{"url":"https://x.example/pay?q='' @ e_acute @ ''"}''
        then Inr (JObj [(''url'', JStr (''https://x.example/pay?q='' @ e_acute))])
      else if s = ''{"url":"https://x.example/pay?q='' @ replacement_character
                    @ replacement_character @ ''"}''
        then Inr (JObj [(''url'', JStr (''https://x.example/pay?q='' @ replacement_character
                                         @ replacement_character))])
      else if s = ''{}'' then Inr (JObj [])
      else if s = ''{"signedTransaction":"AQID","requestId":"r-1","note":"x"}''
        then Inr (JObj [(''signedTransaction'', JStr ''AQID''), (''requestId'', JStr ''r-1''),
                        (''note'', JStr ''x'')])
      else if s = ''null'' then Inr JNull
      else Inl ''Unexpected end of JSON input'')\<close>

definition sample_new_URL :: "string \<Rightarrow> string option \<Rightarrow> string + parsed_url" where
  "sample_new_URL input base =
     (if input = ''https://x.example/pay?a=1&b=2'' \<and> base = None
        then Inr \<lparr>search = ''?a=1&b=2'', searchParams = [(''a'', ''1''), (''b'', ''2'')]\<rparr>
      else if input = ''https://x.example/pay?q='' @ e_acute \<and> base = None
        then Inr \<lparr>search = ''?q=%C3%A9'', searchParams = [(''q'', e_acute)]\<rparr>
      else if input = ''https://x.example/pay?q='' @ replacement_character @ replacement_character
                \<and> base = None
        then Inr \<lparr>search = ''?q=%EF%BF%BD%EF%BF%BD'',
                  searchParams = [(''q'', replacement_character @ replacement_character)]\<rparr>
      else if input = ''/?inputMint=So11&outputMint=EPjF'' \<and> base = Some ''http://localhost''
        then Inr \<lparr>search = ''?inputMint=So11&outputMint=EPjF'',
                  searchParams = [(''inputMint'', ''So11''), (''outputMint'', ''EPjF'')]\<rparr>
      else if input = ''/?taker=Tk1&amount=1000&outputMint=EPjF&inputMint=So11''
                \<and> base = Some ''http://localhost''
        then Inr \<lparr>search = ''?taker=Tk1&amount=1000&outputMint=EPjF&inputMint=So11'',
                  searchParams = [(''taker'', ''Tk1''), (''amount'', ''1000''),
                                  (''outputMint'', ''EPjF''), (''inputMint'', ''So11'')]\<rparr>
      else Inl ''Invalid URL'')"

definition sample_hmac :: "string \<Rightarrow> string \<Rightarrow> string" where
  "sample_hmac key m =
     (if (key = ''k'' \<or> key = ''k'' @ [CHR 0x00]) \<and> m = ''?a=1&b=2''
        then ''Wb20+YzRSP4+tVjJXH4b2JGT47jh7qZ/7qyTvnftxBY=''
      else if (key = ''k'' \<or> key = ''k'' @ [CHR 0x00]) \<and> m = ''?q=%C3%A9''
        then ''oW8tgnKFLhSDrpvwGaaWG/MjrJNBnUhAF20luwHIsHU=''
      else if (key = ''k'' \<or> key = ''k'' @ [CHR 0x00]) \<and> m = ''?q=%EF%BF%BD%EF%BF%BD''
        then ''CrPTpvqt+MvEzhpsJiZNbrlAfT1WMb3whZcsTBolLOw=''
      else [])"

text \<open>
  The two decoders. A chunk that ends with the first byte of the accented letter, or
  begins with its second, has that byte replaced by U+FFFD; a body that begins with a
  byte order mark loses it in \<open>Response.text()\<close>. Every other chunk and body of the
  examples is ASCII and decodes to itself.
\<close>

definition sample_Buffer_toString :: "string \<Rightarrow> string" where
  \<open>sample_Buffer_toString chunk =
     (if chunk = ''{"url":"https://x.example/pay?q='' @ [CHR 0xC3]
        then ''{"url":"https://x.example/pay?q='' @ replacement_character
      else if chunk = [CHR 0xA9] @ ''"}'' then replacement_character @ ''"}''
      else chunk)\<close>

definition byte_order_mark :: string where
  "byte_order_mark = [CHR 0xEF, CHR 0xBB, CHR 0xBF]"

definition sample_utf8_decode :: "string \<Rightarrow> string" where
  "sample_utf8_decode bytes =
     (if take 3 bytes = byte_order_mark then drop 3 bytes else bytes)"

text \<open>
  An upstream that answers an order with a quote, an execute with an empty 502 that has
  no content type, and anything else with a network failure.
\<close>

definition sample_fetch :: "upstream_request \<Rightarrow> thrown + upstream_response" where
  \<open>sample_fetch r =
     (if take 33 (target r) = ''https://api.jup.ag/ultra/v1/order'' then
        Inr \<lparr>status = 200, content_type = Some ''application/json; charset=utf-8'',
             body_bytes = Inr ''{"requestId":"r-1","transaction":"AQID"}''\<rparr>
      else if target r = ''https://api.jup.ag/ultra/v1/execute'' then
        Inr \<lparr>status = 502, content_type = None, body_bytes = Inr []\<rparr>
      else Inl (ErrorObj ''fetch failed''))\<close>

definition sample_rt :: runtime where
  "sample_rt =
     \<lparr>JSON_parse = sample_JSON_parse, new_URL = sample_new_URL,
      hmac_sha256_base64 = sample_hmac, fetch = sample_fetch,
      Buffer_toString = sample_Buffer_toString, utf8_decode = sample_utf8_decode\<rparr>"



text \<open>
  The relay of an upstream response whose body has the text \<open>b\<close>, as the
  specification words it: the upstream status, the upstream content type or
  \<open>application/json\<close> when there is none, and \<open>b\<close>, or \<open>{}\<close> when \<open>b\<close> is empty.
\<close>

definition relay_spec :: "upstream_response \<Rightarrow> string \<Rightarrow> response" where
  "relay_spec upstream b =
     \<lparr>statusCode = status upstream,
      headers = [(''Content-Type'',
                  (case content_type upstream of None \<Rightarrow> ''application/json'' | Some c \<Rightarrow> c))],
      body = (if b = [] then ''{}'' else b)\<rparr>"





section \<open>Example requests\<close>


definition broken_rt :: runtime where
  "broken_rt =
     sample_rt\<lparr>fetch := (\<lambda>r. Inr \<lparr>status = 502, content_type = Some ''text/html'',
                                     body_bytes = Inl (ErrorObj ''terminated'')\<rparr>)\<rparr>"

definition bom_rt :: runtime where
  \<open>bom_rt =
     sample_rt\<lparr>fetch := (\<lambda>r. Inr \<lparr>status = 200, content_type = Some ''application/json'',
                                     body_bytes = Inr (byte_order_mark @ ''{"ok":true}'')\<rparr>)\<rparr>\<close>

text \<open>
  The requests of the scenarios, as the middlewares see them (the url below the mount
  point). The body of \<open>split_request\<close> is cut between the two bytes of an accented
  letter.
\<close>

definition sign_request :: incoming where
  \<open>sign_request =
     \<lparr>http_method = Some ''POST'', url = Some ''/'',
      body_stream = Inr [''{"url":"https://x.example'', ''/pay?a=1&b=2"}'']\<rparr>\<close>

definition split_request_chunks :: "string list" where
  \<open>split_request_chunks =
     [''{"url":"https://x.example/pay?q='' @ [CHR 0xC3], [CHR 0xA9] @ ''"}'']\<close>

definition split_request :: incoming where
  "split_request =
     \<lparr>http_method = Some ''POST'', url = Some ''/'', body_stream = Inr split_request_chunks\<rparr>"

definition bad_url_request :: incoming where
  \<open>bad_url_request =
     \<lparr>http_method = Some ''POST'', url = Some ''/'', body_stream = Inr [''{"url":"not a url"}'']\<rparr>\<close>

definition bad_json_request :: incoming where
  "bad_json_request =
     \<lparr>http_method = Some ''POST'', url = Some ''/'', body_stream = Inr [''{'']\<rparr>"

definition empty_post :: incoming where
  "empty_post = \<lparr>http_method = Some ''POST'', url = Some ''/'', body_stream = Inr []\<rparr>"

definition null_post :: incoming where
  "null_post = \<lparr>http_method = Some ''POST'', url = Some ''/'', body_stream = Inr [''null'']\<rparr>"

definition put_request :: incoming where
  "put_request = \<lparr>http_method = Some ''PUT'', url = Some ''/'', body_stream = Inr []\<rparr>"

definition order_request_two :: incoming where
  "order_request_two =
     \<lparr>http_method = Some ''GET'', url = Some ''/?inputMint=So11&outputMint=EPjF'',
      body_stream = Inr []\<rparr>"

definition order_request_full :: incoming where
  "order_request_full =
     \<lparr>http_method = Some ''GET'',
      url = Some ''/?taker=Tk1&amount=1000&outputMint=EPjF&inputMint=So11'',
      body_stream = Inr []\<rparr>"

definition order_request_unparseable :: incoming where
  "order_request_unparseable =
     \<lparr>http_method = Some ''GET'', url = Some ''//['', body_stream = Inr []\<rparr>"

definition execute_request :: incoming where
  \<open>execute_request =
     \<lparr>http_method = Some ''POST'', url = Some ''/'',
      body_stream = Inr [''{"signedTransaction":"AQID","requestId":"r-1","note":"x"}'']\<rparr>\<close>

text \<open>
  Environments with and without a key, and the requests of the scenarios as the
  serverless handlers see them. A POST without a body arrives with the empty string as
  \<open>req.body\<close>; \<open>req.body\<close> is undefined under a content type the platform does not
  parse; a parameter given twice arrives as an array.
\<close>

definition sample_env :: "string \<Rightarrow> string option" where
  "sample_env = map_of [(''JUPITER_ULTRA_API_KEY'', ''jk'')]"

definition no_env :: "string \<Rightarrow> string option" where
  "no_env = (\<lambda>name. None)"

definition other_env :: "string \<Rightarrow> string option" where
  "other_env = map_of [(''VITE_JUPITER_ULTRA_API_KEY'', ''zz'')]"

definition vercel_put_request :: vercel_request where
  "vercel_put_request =
     \<lparr>vmethod = Some ''PUT'', vurl = Some ''/api/jupiter/order'', query = (\<lambda>k. None),
      vbody = Inr None\<rparr>"

definition vercel_order_two :: vercel_request where
  "vercel_order_two =
     \<lparr>vmethod = Some ''GET'', vurl = Some ''/api/jupiter/order?inputMint=So11&outputMint=EPjF'',
      query = map_of [(''inputMint'', QStr ''So11''), (''outputMint'', QStr ''EPjF'')],
      vbody = Inr None\<rparr>"

definition vercel_order_full :: vercel_request where
  "vercel_order_full =
     \<lparr>vmethod = Some ''GET'',
      vurl = Some ''/api/jupiter/order?taker=Tk1&amount=1000&outputMint=EPjF&inputMint=So11'',
      query = map_of [(''taker'', QStr ''Tk1''), (''amount'', QStr ''1000''),
                      (''outputMint'', QStr ''EPjF''), (''inputMint'', QStr ''So11'')],
      vbody = Inr None\<rparr>"

definition vercel_order_repeated :: vercel_request where
  "vercel_order_repeated =
     \<lparr>vmethod = Some ''GET'',
      vurl = Some ''/api/jupiter/order?inputMint=&inputMint=&outputMint=EPjF&amount=1000&taker=Tk1'',
      query = map_of [(''inputMint'', QArr [[], []]), (''outputMint'', QStr ''EPjF''),
                      (''amount'', QStr ''1000''), (''taker'', QStr ''Tk1'')],
      vbody = Inr None\<rparr>"

definition vercel_execute_empty :: vercel_request where
  "vercel_execute_empty =
     \<lparr>vmethod = Some ''POST'', vurl = Some ''/api/jupiter/execute'', query = (\<lambda>name. None),
      vbody = Inr (Some (JStr []))\<rparr>"

definition vercel_execute_undefined :: vercel_request where
  "vercel_execute_undefined =
     \<lparr>vmethod = Some ''POST'', vurl = Some ''/api/jupiter/execute'', query = (\<lambda>name. None),
      vbody = Inr None\<rparr>"

definition vercel_execute_object :: vercel_request where
  "vercel_execute_object =
     \<lparr>vmethod = Some ''POST'', vurl = Some ''/api/jupiter/execute'', query = (\<lambda>name. None),
      vbody = Inr (Some (JObj []))\<rparr>"

definition vercel_execute_null_text :: vercel_request where
  "vercel_execute_null_text =
     \<lparr>vmethod = Some ''POST'', vurl = Some ''/api/jupiter/execute'', query = (\<lambda>name. None),
      vbody = Inr (Some (JStr ''null''))\<rparr>"

definition vercel_execute_request :: vercel_request where
  "vercel_execute_request =
     \<lparr>vmethod = Some ''POST'', vurl = Some ''/api/jupiter/execute'', query = (\<lambda>name. None),
      vbody = Inr (Some (JObj [(''signedTransaction'', JStr ''AQID''), (''requestId'', JStr ''r-1''),
                               (''note'', JStr ''x'')]))\<rparr>"

definition vercel_execute_bad_json :: vercel_request where
  "vercel_execute_bad_json =
     \<lparr>vmethod = Some ''POST'', vurl = Some ''/api/jupiter/execute'', query = (\<lambda>name. None),
      vbody = Inr (Some (JStr ''{''))\<rparr>"

section \<open>The branches of the handlers\<close>

subsection \<open>Reading the body\<close>

lemma readBody_stream_error: "body_stream req = Inl e \<Longrightarrow> readBody rt req = Inl e"
  by (simp add: readBody_def)

lemma readBody_empty:
  "body_stream req = Inr chunks \<Longrightarrow> concat (map (Buffer_toString rt) chunks) = [] \<Longrightarrow> readBody rt req = Inr (JObj [])"
  by (simp add: readBody_def)

lemma readBody_invalid:
  "body_stream req = Inr chunks \<Longrightarrow> concat (map (Buffer_toString rt) chunks) \<noteq> [] \<Longrightarrow>
   JSON_parse rt (concat (map (Buffer_toString rt) chunks)) = Inl m \<Longrightarrow> readBody rt req = Inl (ErrorObj m)"
  by (simp add: readBody_def)

lemma readBody_parsed:
  "body_stream req = Inr chunks \<Longrightarrow> concat (map (Buffer_toString rt) chunks) \<noteq> [] \<Longrightarrow>
   JSON_parse rt (concat (map (Buffer_toString rt) chunks)) = Inr v \<Longrightarrow> readBody rt req = Inr v"
  by (simp add: readBody_def)

lemma parseBody_undefined: "vbody vreq = Inr None \<Longrightarrow> parseBody rt vreq = Inr (JObj [])"
  by (simp add: parseBody_def)

lemma parseBody_invalid:
  "vbody vreq = Inr (Some (JStr s)) \<Longrightarrow> JSON_parse rt s = Inl m \<Longrightarrow>
   parseBody rt vreq = Inl (ErrorObj m)"
  by (simp add: parseBody_def)

lemma parseBody_object:
  "vbody vreq = Inr (Some (JObj props)) \<Longrightarrow> parseBody rt vreq = Inr (JObj props)"
  by (simp add: parseBody_def)

subsection \<open>The signing endpoint\<close>

lemma sign_try_readBody_throws: "readBody rt req = Inl e \<Longrightarrow> sign_try rt k req = Inl e"
  by (simp add: sign_try_def)

lemma sign_try_missing_url:
  "readBody rt req = Inr b \<Longrightarrow> get_prop b ''url'' = Inr v \<Longrightarrow> falsy (string_or_undefined v) \<Longrightarrow>
   sign_try rt k req = Inr (sendJson 400 [(''error'', ''Missing url in MoonPay signature payload.'')])"
  by (simp add: sign_try_def)

lemma sign_try_bad_url:
  "readBody rt req = Inr b \<Longrightarrow> get_prop b ''url'' = Inr (Some (JStr u)) \<Longrightarrow> u \<noteq> [] \<Longrightarrow>
   new_URL rt u None = Inl m \<Longrightarrow> sign_try rt k req = Inl (ErrorObj m)"
  by (simp add: sign_try_def)

lemma sign_try_signs:
  "readBody rt req = Inr b \<Longrightarrow> get_prop b ''url'' = Inr (Some (JStr u)) \<Longrightarrow> u \<noteq> [] \<Longrightarrow>
   new_URL rt u None = Inr parsed \<Longrightarrow>
   sign_try rt k req = Inr (sendJson 200 [(''signature'', hmac_sha256_base64 rt k (search parsed))])"
  by (simp add: sign_try_def)

lemma sign_endpoint_returns:
  "http_method req = Some ''POST'' \<Longrightarrow> k \<noteq> [] \<Longrightarrow> sign_try rt k req = Inr r \<Longrightarrow>
   registerMoonPaySignatureEndpoint rt (Some k) req = (r, [ReadBody])"
  by (simp add: registerMoonPaySignatureEndpoint_def)

lemma sign_endpoint_catches:
  "http_method req = Some ''POST'' \<Longrightarrow> k \<noteq> [] \<Longrightarrow> sign_try rt k req = Inl e \<Longrightarrow>
   registerMoonPaySignatureEndpoint rt (Some k) req =
     (sendJson 500 [(''error'', message_of e ''MoonPay signature generation failed.'')], [ReadBody])"
  by (simp add: registerMoonPaySignatureEndpoint_def)

lemma sign_endpoint_unconfigured:
  "http_method req = Some ''POST'' \<Longrightarrow> falsy secret \<Longrightarrow>
   registerMoonPaySignatureEndpoint rt secret req =
     (sendJson 500 [(''error'', ''MoonPay secret key is not configured on the server.'')], [])"
  by (simp add: registerMoonPaySignatureEndpoint_def)

text \<open>
  What the endpoint signs is the query of the url it has read: the chunks decoded one by
  one, put together and parsed.
\<close>

lemma signs_query_of_read_url:
  assumes "http_method req = Some ''POST''"
    and "secret = Some k" and "k \<noteq> []"
    and "body_stream req = Inr chunks" and "concat (map (Buffer_toString rt) chunks) \<noteq> []"
    and "JSON_parse rt (concat (map (Buffer_toString rt) chunks)) = Inr (JObj props)"
    and "map_of props ''url'' = Some (JStr u)" and "u \<noteq> []"
    and "new_URL rt u None = Inr parsed"
  shows "registerMoonPaySignatureEndpoint rt secret req =
           (\<lparr>statusCode = 200, headers = [(''Content-Type'', ''application/json'')],
             body = JSON_stringify [(''signature'', hmac_sha256_base64 rt k (search parsed))]\<rparr>,
            [ReadBody])"
proof -
  have "readBody rt req = Inr (JObj props)"
    using assms(4-6) by (rule readBody_parsed)
  moreover have "get_prop (JObj props) ''url'' = Inr (Some (JStr u))"
    using assms(7) by simp
  ultimately have "sign_try rt k req =
      Inr (sendJson 200 [(''signature'', hmac_sha256_base64 rt k (search parsed))])"
    using assms(8,9) by (rule sign_try_signs)
  with assms(1,3) have "registerMoonPaySignatureEndpoint rt (Some k) req =
      (sendJson 200 [(''signature'', hmac_sha256_base64 rt k (search parsed))], [ReadBody])"
    by (rule sign_endpoint_returns)
  then show ?thesis
    by (simp add: assms(2) sendJson_def)
qed

subsection \<open>Catching and relaying\<close>

lemma catch_500_returns: "catch_500 fb (Inr r, effs) = (r, effs)"
  by (simp add: catch_500_def)

lemma catch_500_catches:
  "catch_500 fb (Inl e, effs) = (sendJson 500 [(''error'', message_of e fb)], effs)"
  by (simp add: catch_500_def)

lemma catch_json_500_returns: "catch_json_500 fb (Inr r, effs) = (r, effs)"
  by (simp add: catch_json_500_def)

lemma catch_json_500_catches:
  "catch_json_500 fb (Inl e, effs) = (status_json 500 [(''error'', message_of e fb)], effs)"
  by (simp add: catch_json_500_def)

lemma snd_catch_500: "snd (catch_500 fb t) = snd t"
  by (simp add: catch_500_def split: sum.splits)

lemma snd_catch_json_500: "snd (catch_json_500 fb t) = snd t"
  by (simp add: catch_json_500_def split: sum.splits)

lemma Response_text_fails:
  "body_bytes upstream = Inl e \<Longrightarrow> Response_text rt upstream = Inl e"
  by (simp add: Response_text_def)

lemma fetch_and_forward_eq:
  "fetch_and_forward rt q =
     ((case fetch rt q of
         Inl e \<Rightarrow> Inl e
       | Inr up \<Rightarrow>
           (case Response_text rt up of Inl e \<Rightarrow> Inl e | Inr b \<Rightarrow> Inr (relay_spec up b))),
      [Fetch q])"
  by (simp add: fetch_and_forward_def forwardJupiterResponse_def relay_spec_def split: sum.splits)

lemma fetch_and_forwardResponse_eq:
  "fetch_and_forwardResponse rt q =
     ((case fetch rt q of
         Inl e \<Rightarrow> Inl e
       | Inr up \<Rightarrow>
           (case Response_text rt up of Inl e \<Rightarrow> Inl e | Inr b \<Rightarrow> Inr (relay_spec up b))),
      [Fetch q])"
  by (simp add: fetch_and_forwardResponse_def forwardResponse_def relay_spec_def split: sum.splits)

lemma ensureApiKey_configured: "key \<noteq> [] \<Longrightarrow> ensureApiKey (Some key) = Inr key"
  by (simp add: ensureApiKey_def)

lemma get_prop_total:
  "b \<noteq> JNull \<Longrightarrow>
   \<exists>st rid. get_prop b ''signedTransaction'' = Inr st \<and> get_prop b ''requestId'' = Inr rid"
  by (cases b) simp_all

subsection \<open>The loop over the required parameters\<close>

lemma first_missing_None:
  "(first_missing u ps = None) = (\<forall>p \<in> set ps. \<not> falsy (searchParams_get u p))"
  by (induction ps) auto

lemma first_missing_Some:
  "ps = pre @ p # post \<Longrightarrow> falsy (searchParams_get u p) \<Longrightarrow>
   \<forall>q \<in> set pre. \<not> falsy (searchParams_get u q) \<Longrightarrow> first_missing u ps = Some p"
  by (induction pre arbitrary: ps) auto

lemma first_missing_exists:
  "p \<in> set ps \<Longrightarrow> falsy (searchParams_get u p) \<Longrightarrow> \<exists>q. first_missing u ps = Some q"
  by (induction ps) auto

lemma first_missing_split:
  assumes "p \<in> set ps" and "falsy (searchParams_get u p)"
  shows "\<exists>pre p' post. ps = pre @ p' # post \<and> falsy (searchParams_get u p')
           \<and> (\<forall>q \<in> set pre. \<not> falsy (searchParams_get u q))"
proof -
  from assms have "\<exists>x \<in> set ps. falsy (searchParams_get u x)"
    by blast
  then show ?thesis
    by (rule split_list_first_prop)
qed

lemma falsy_iff: "falsy x = (x = None \<or> x = Some [])"
  by (cases x) auto

lemma is_missing_iff: "is_missing v = (v = None \<or> v = Some (QStr []) \<or> v = Some (QArr []))"
  by (cases v rule: is_missing.cases) auto

subsection \<open>The order middleware\<close>

lemma jupiter_order_unconfigured:
  "http_method req = Some ''GET'' \<Longrightarrow> falsy apiKey \<Longrightarrow>
   jupiter_order rt apiKey req =
     (sendJson 500 [(''error'',
        ''Jupiter Ultra API key is not configured on the server. Set JUPITER_ULTRA_API_KEY in your env.'')], [])"
  by (simp add: jupiter_order_def ensureApiKey_def)

lemma jupiter_order_configured:
  "http_method req = Some ''GET'' \<Longrightarrow> key \<noteq> [] \<Longrightarrow>
   jupiter_order rt (Some key) req = catch_500 ''Jupiter order request failed.'' (order_try rt key req)"
  by (simp add: jupiter_order_def ensureApiKey_def)

lemma order_try_bad_url:
  "new_URL rt (case url req of None \<Rightarrow> [] | Some u \<Rightarrow> u) (Some ''http://localhost'') = Inl m \<Longrightarrow>
   order_try rt key req = (Inl (ErrorObj m), [])"
  by (simp add: order_try_def)

lemma order_try_missing:
  "new_URL rt (case url req of None \<Rightarrow> [] | Some u \<Rightarrow> u) (Some ''http://localhost'') = Inr u \<Longrightarrow>
   first_missing u requiredParams = Some p \<Longrightarrow>
   order_try rt key req =
     (Inr (sendJson 400 [(''error'', ''Missing required parameter: '' @ p)]), [])"
  by (simp add: order_try_def)

lemma order_try_forwards:
  "new_URL rt (case url req of None \<Rightarrow> [] | Some u \<Rightarrow> u) (Some ''http://localhost'') = Inr u \<Longrightarrow>
   first_missing u requiredParams = None \<Longrightarrow>
   order_try rt key req =
     fetch_and_forward rt
       \<lparr>target = JUPITER_ULTRA_BASE_URL @ ''/order'' @ search u,
        fetch_method = Some ''GET'',
        fetch_headers = [(''x-api-key'', key)],
        fetch_body = None\<rparr>"
  by (simp add: order_try_def)

lemma order_try_shape:
  "snd (order_try rt key req) = [] \<or> (\<exists>q. order_try rt key req = fetch_and_forward rt q)"
  by (auto simp: order_try_def split: sum.splits option.splits)

lemma jupiter_order_effects:
  "snd (jupiter_order rt apiKey req) = [] \<or>
   (\<exists>q. jupiter_order rt apiKey req =
      catch_500 ''Jupiter order request failed.'' (fetch_and_forward rt q))"
proof (cases "http_method req = Some ''GET'' \<and> \<not> falsy apiKey")
  case False
  then show ?thesis
    by (auto simp: jupiter_order_def ensureApiKey_def)
next
  case True
  then obtain key where k: "apiKey = Some key" "key \<noteq> []"
    by (cases apiKey) auto
  with True have eq: "jupiter_order rt apiKey req =
      catch_500 ''Jupiter order request failed.'' (order_try rt key req)"
    by (simp add: jupiter_order_configured)
  from order_try_shape [of rt key req] show ?thesis
    by (auto simp: eq snd_catch_500)
qed

lemma jupiter_order_relays:
  assumes "Fetch r \<in> set (snd (jupiter_order rt apiKey req))"
    and "fetch rt r = Inr upstream" and "Response_text rt upstream = Inr b"
  shows "fst (jupiter_order rt apiKey req) = relay_spec upstream b"
proof -
  from jupiter_order_effects [of rt apiKey req] assms(1)
  obtain q where q: "jupiter_order rt apiKey req =
      catch_500 ''Jupiter order request failed.'' (fetch_and_forward rt q)"
    by auto
  with assms(1) have "r = q"
    by (simp add: snd_catch_500 fetch_and_forward_eq)
  with assms(2,3) show ?thesis
    by (simp add: q fetch_and_forward_eq catch_500_returns)
qed

lemma jupiter_order_read_fails:
  assumes "Fetch r \<in> set (snd (jupiter_order rt apiKey req))"
    and "fetch rt r = Inr upstream" and "body_bytes upstream = Inl e"
  shows "fst (jupiter_order rt apiKey req) =
      sendJson 500 [(''error'', message_of e ''Jupiter order request failed.'')]"
proof -
  from jupiter_order_effects [of rt apiKey req] assms(1)
  obtain q where q: "jupiter_order rt apiKey req =
      catch_500 ''Jupiter order request failed.'' (fetch_and_forward rt q)"
    by auto
  with assms(1) have "r = q"
    by (simp add: snd_catch_500 fetch_and_forward_eq)
  with assms(2,3) show ?thesis
    by (simp add: q fetch_and_forward_eq catch_500_catches Response_text_fails)
qed

subsection \<open>The execute middleware\<close>

lemma jupiter_execute_unconfigured:
  "http_method req = Some ''POST'' \<Longrightarrow> falsy apiKey \<Longrightarrow>
   jupiter_execute rt apiKey req =
     (sendJson 500 [(''error'',
        ''Jupiter Ultra API key is not configured on the server. Set JUPITER_ULTRA_API_KEY in your env.'')], [])"
  by (simp add: jupiter_execute_def ensureApiKey_def)

lemma jupiter_execute_configured:
  "http_method req = Some ''POST'' \<Longrightarrow> key \<noteq> [] \<Longrightarrow>
   jupiter_execute rt (Some key) req =
     catch_500 ''Jupiter execute request failed.'' (execute_try rt key req)"
  by (simp add: jupiter_execute_def ensureApiKey_def)

lemma execute_try_readBody_throws:
  "readBody rt req = Inl e \<Longrightarrow> execute_try rt key req = (Inl e, [ReadBody])"
  by (simp add: execute_try_def)

lemma execute_try_invalid:
  "readBody rt req = Inr b \<Longrightarrow> get_prop b ''signedTransaction'' = Inr st \<Longrightarrow>
   get_prop b ''requestId'' = Inr rid \<Longrightarrow>
   falsy (string_or_undefined st) \<or> falsy (string_or_undefined rid) \<Longrightarrow>
   execute_try rt key req =
     (Inr (sendJson 400 [(''error'',
        ''signedTransaction and requestId are required in the Jupiter execute payload.'')]),
      [ReadBody])"
  by (simp add: execute_try_def)

lemma execute_try_forwards:
  "readBody rt req = Inr b \<Longrightarrow> get_prop b ''signedTransaction'' = Inr (Some (JStr s)) \<Longrightarrow>
   get_prop b ''requestId'' = Inr (Some (JStr r)) \<Longrightarrow> s \<noteq> [] \<Longrightarrow> r \<noteq> [] \<Longrightarrow>
   execute_try rt key req =
     (fst (fetch_and_forward rt
        \<lparr>target = JUPITER_ULTRA_BASE_URL @ ''/execute'',
         fetch_method = Some ''POST'',
         fetch_headers = [(''x-api-key'', key), (''Content-Type'', ''application/json'')],
         fetch_body = Some (JSON_stringify [(''signedTransaction'', s), (''requestId'', r)])\<rparr>),
      [ReadBody,
       Fetch \<lparr>target = JUPITER_ULTRA_BASE_URL @ ''/execute'',
         fetch_method = Some ''POST'',
         fetch_headers = [(''x-api-key'', key), (''Content-Type'', ''application/json'')],
         fetch_body = Some (JSON_stringify [(''signedTransaction'', s), (''requestId'', r)])\<rparr>])"
  by (simp add: execute_try_def fetch_and_forward_eq)

lemma execute_try_null:
  "readBody rt req = Inr JNull \<Longrightarrow>
   execute_try rt key req =
     (Inl (ErrorObj (''Cannot read properties of null (reading '' @ [CHR 0x27]
        @ ''signedTransaction'' @ [CHR 0x27] @ '')'')), [ReadBody])"
  by (simp add: execute_try_def)

lemma execute_try_shape:
  "snd (execute_try rt key req) = [ReadBody] \<or>
   (\<exists>q. execute_try rt key req = (fst (fetch_and_forward rt q), [ReadBody, Fetch q]))"
  by (simp add: execute_try_def fetch_and_forward_eq Let_def split: sum.splits)

lemma jupiter_execute_effects:
  "\<not> list_ex is_fetch (snd (jupiter_execute rt apiKey req)) \<or>
   (\<exists>q. jupiter_execute rt apiKey req =
      catch_500 ''Jupiter execute request failed.''
        (fst (fetch_and_forward rt q), [ReadBody, Fetch q]))"
proof (cases "http_method req = Some ''POST'' \<and> \<not> falsy apiKey")
  case False
  then show ?thesis
    by (auto simp: jupiter_execute_def ensureApiKey_def)
next
  case True
  then obtain key where k: "apiKey = Some key" "key \<noteq> []"
    by (cases apiKey) auto
  with True have eq: "jupiter_execute rt apiKey req =
      catch_500 ''Jupiter execute request failed.'' (execute_try rt key req)"
    by (simp add: jupiter_execute_configured)
  from execute_try_shape [of rt key req] show ?thesis
    by (auto simp: eq snd_catch_500)
qed

lemma jupiter_execute_relays:
  assumes "Fetch r \<in> set (snd (jupiter_execute rt apiKey req))"
    and "fetch rt r = Inr upstream" and "Response_text rt upstream = Inr b"
  shows "fst (jupiter_execute rt apiKey req) = relay_spec upstream b"
proof -
  from assms(1) have "list_ex is_fetch (snd (jupiter_execute rt apiKey req))"
    by (auto simp: list_ex_iff intro!: bexI [of _ "Fetch r"])
  with jupiter_execute_effects [of rt apiKey req]
  obtain q where q: "jupiter_execute rt apiKey req =
      catch_500 ''Jupiter execute request failed.''
        (fst (fetch_and_forward rt q), [ReadBody, Fetch q])"
    by auto
  with assms(1) have "r = q"
    by (simp add: snd_catch_500)
  with assms(2,3) show ?thesis
    by (simp add: q fetch_and_forward_eq catch_500_returns)
qed

lemma jupiter_execute_read_fails:
  assumes "Fetch r \<in> set (snd (jupiter_execute rt apiKey req))"
    and "fetch rt r = Inr upstream" and "body_bytes upstream = Inl e"
  shows "fst (jupiter_execute rt apiKey req) =
      sendJson 500 [(''error'', message_of e ''Jupiter execute request failed.'')]"
proof -
  from assms(1) have "list_ex is_fetch (snd (jupiter_execute rt apiKey req))"
    by (auto simp: list_ex_iff intro!: bexI [of _ "Fetch r"])
  with jupiter_execute_effects [of rt apiKey req]
  obtain q where q: "jupiter_execute rt apiKey req =
      catch_500 ''Jupiter execute request failed.''
        (fst (fetch_and_forward rt q), [ReadBody, Fetch q])"
    by auto
  with assms(1) have "r = q"
    by (simp add: snd_catch_500)
  with assms(2,3) show ?thesis
    by (simp add: q fetch_and_forward_eq catch_500_catches Response_text_fails)
qed

lemma jupiter_execute_branches:
  assumes "key \<noteq> []" and "http_method req = Some ''POST''"
  shows "(readBody rt req = Inl e \<longrightarrow>
            jupiter_execute rt (Some key) req =
              (sendJson 500 [(''error'', message_of e ''Jupiter execute request failed.'')],
               [ReadBody]))
       \<and> (readBody rt req = Inr JNull \<longrightarrow>
            jupiter_execute rt (Some key) req =
              (sendJson 500 [(''error'', ''Cannot read properties of null (reading ''
                 @ [CHR 0x27] @ ''signedTransaction'' @ [CHR 0x27] @ '')'')], [ReadBody]))
       \<and> (readBody rt req = Inr b
            \<and> get_prop b ''signedTransaction'' = Inr st \<and> get_prop b ''requestId'' = Inr rid
            \<and> (falsy (string_or_undefined st) \<or> falsy (string_or_undefined rid)) \<longrightarrow>
            jupiter_execute rt (Some key) req =
              (sendJson 400 [(''error'',
                 ''signedTransaction and requestId are required in the Jupiter execute payload.'')],
               [ReadBody]))
       \<and> (readBody rt req = Inr b
            \<and> get_prop b ''signedTransaction'' = Inr (Some (JStr s))
            \<and> get_prop b ''requestId'' = Inr (Some (JStr r)) \<and> s \<noteq> [] \<and> r \<noteq> [] \<longrightarrow>
            snd (jupiter_execute rt (Some key) req) =
              [ReadBody,
               Fetch \<lparr>target = JUPITER_ULTRA_BASE_URL @ ''/execute'',
                      fetch_method = Some ''POST'',
                      fetch_headers = [(''x-api-key'', key), (''Content-Type'', ''application/json'')],
                      fetch_body = Some (JSON_stringify
                        [(''signedTransaction'', s), (''requestId'', r)])\<rparr>])
       \<and> (body_stream req = Inr chunks \<and> concat (map (Buffer_toString rt) chunks) = [] \<longrightarrow>
            jupiter_execute rt (Some key) req =
              (sendJson 400 [(''error'',
                 ''signedTransaction and requestId are required in the Jupiter execute payload.'')],
               [ReadBody]))"
proof -
  have c: "jupiter_execute rt (Some key) req =
      catch_500 ''Jupiter execute request failed.'' (execute_try rt key req)"
    using assms by (simp add: jupiter_execute_configured)
  have invalid: "readBody rt req = Inr b \<Longrightarrow> get_prop b ''signedTransaction'' = Inr st \<Longrightarrow>
      get_prop b ''requestId'' = Inr rid \<Longrightarrow>
      falsy (string_or_undefined st) \<or> falsy (string_or_undefined rid) \<Longrightarrow>
      jupiter_execute rt (Some key) req =
        (sendJson 400 [(''error'',
           ''signedTransaction and requestId are required in the Jupiter execute payload.'')],
         [ReadBody])" for b st rid
    by (simp only: c execute_try_invalid catch_500_returns)
  show ?thesis
  proof (intro conjI impI)
    assume "readBody rt req = Inl e"
    then show "jupiter_execute rt (Some key) req =
        (sendJson 500 [(''error'', message_of e ''Jupiter execute request failed.'')], [ReadBody])"
      by (simp add: c execute_try_readBody_throws catch_500_catches)
  next
    assume "readBody rt req = Inr JNull"
    then show "jupiter_execute rt (Some key) req =
        (sendJson 500 [(''error'', ''Cannot read properties of null (reading ''
           @ [CHR 0x27] @ ''signedTransaction'' @ [CHR 0x27] @ '')'')], [ReadBody])"
      by (simp add: c execute_try_null catch_500_catches)
  next
    assume "readBody rt req = Inr b
        \<and> get_prop b ''signedTransaction'' = Inr st \<and> get_prop b ''requestId'' = Inr rid
        \<and> (falsy (string_or_undefined st) \<or> falsy (string_or_undefined rid))"
    then show "jupiter_execute rt (Some key) req =
        (sendJson 400 [(''error'',
           ''signedTransaction and requestId are required in the Jupiter execute payload.'')],
         [ReadBody])"
      by (blast intro: invalid)
  next
    assume "readBody rt req = Inr b
        \<and> get_prop b ''signedTransaction'' = Inr (Some (JStr s))
        \<and> get_prop b ''requestId'' = Inr (Some (JStr r)) \<and> s \<noteq> [] \<and> r \<noteq> []"
    then show "snd (jupiter_execute rt (Some key) req) =
        [ReadBody,
         Fetch \<lparr>target = JUPITER_ULTRA_BASE_URL @ ''/execute'',
                fetch_method = Some ''POST'',
                fetch_headers = [(''x-api-key'', key), (''Content-Type'', ''application/json'')],
                fetch_body = Some (JSON_stringify
                  [(''signedTransaction'', s), (''requestId'', r)])\<rparr>]"
      by (simp add: c snd_catch_500 execute_try_forwards)
  next
    assume "body_stream req = Inr chunks \<and> concat (map (Buffer_toString rt) chunks) = []"
    then have "readBody rt req = Inr (JObj [])"
      by (simp add: readBody_empty)
    then show "jupiter_execute rt (Some key) req =
        (sendJson 400 [(''error'',
           ''signedTransaction and requestId are required in the Jupiter execute payload.'')],
         [ReadBody])"
      by (rule invalid [where st = None and rid = None]) simp_all
  qed
qed

subsection \<open>The serverless order handler\<close>

lemma vercel_order_unconfigured:
  "vmethod vreq = Some ''GET'' \<Longrightarrow> falsy (getApiKey env) \<Longrightarrow>
   vercel_order rt env vreq =
     (status_json 500 [(''error'',
        ''Jupiter Ultra API key missing. Set JUPITER_ULTRA_API_KEY in Vercel env.'')], [])"
  by (simp add: vercel_order_def)

lemma vercel_order_missing:
  "vmethod vreq = Some ''GET'' \<Longrightarrow> getApiKey env = Some key \<Longrightarrow> key \<noteq> [] \<Longrightarrow>
   filter (\<lambda>k. is_missing (query vreq k)) requiredParams = missing \<Longrightarrow> missing \<noteq> [] \<Longrightarrow>
   vercel_order rt env vreq =
     (status_json 400 [(''error'', ''Missing required parameter(s): '' @ join '', '' missing)], [])"
  by (simp add: vercel_order_def requiredParams_def Let_def)

lemma vercel_order_forwards:
  "vmethod vreq = Some ''GET'' \<Longrightarrow> getApiKey env = Some key \<Longrightarrow> key \<noteq> [] \<Longrightarrow>
   filter (\<lambda>k. is_missing (query vreq k)) requiredParams = [] \<Longrightarrow>
   vercel_order rt env vreq =
     catch_json_500 ''Jupiter order request failed.''
       (fetch_and_forwardResponse rt
          \<lparr>target = JUPITER_ULTRA_BASE_URL @ ''/order?'' @
             URLSearchParams_toString
               [(''inputMint'', String_of (query vreq ''inputMint'')),
                (''outputMint'', String_of (query vreq ''outputMint'')),
                (''amount'', String_of (query vreq ''amount'')),
                (''taker'', String_of (query vreq ''taker''))],
           fetch_method = None,
           fetch_headers = [(''x-api-key'', key)],
           fetch_body = None\<rparr>)"
  by (simp add: vercel_order_def requiredParams_def Let_def)

lemma vercel_order_shape:
  "snd (vercel_order rt env vreq) = [] \<or>
   (\<exists>q. vercel_order rt env vreq =
      catch_json_500 ''Jupiter order request failed.'' (fetch_and_forwardResponse rt q))"
  by (auto simp: vercel_order_def Let_def)

lemma vercel_order_relays:
  assumes "Fetch r \<in> set (snd (vercel_order rt env vreq))"
    and "fetch rt r = Inr upstream" and "Response_text rt upstream = Inr b"
  shows "fst (vercel_order rt env vreq) = relay_spec upstream b"
proof -
  from vercel_order_shape [of rt env vreq] assms(1)
  obtain q where q: "vercel_order rt env vreq =
      catch_json_500 ''Jupiter order request failed.'' (fetch_and_forwardResponse rt q)"
    by auto
  with assms(1) have "r = q"
    by (simp add: snd_catch_json_500 fetch_and_forwardResponse_eq)
  with assms(2,3) show ?thesis
    by (simp add: q fetch_and_forwardResponse_eq catch_json_500_returns)
qed

lemma vercel_order_read_fails:
  assumes "Fetch r \<in> set (snd (vercel_order rt env vreq))"
    and "fetch rt r = Inr upstream" and "body_bytes upstream = Inl e"
  shows "fst (vercel_order rt env vreq) =
      status_json 500 [(''error'', message_of e ''Jupiter order request failed.'')]"
proof -
  from vercel_order_shape [of rt env vreq] assms(1)
  obtain q where q: "vercel_order rt env vreq =
      catch_json_500 ''Jupiter order request failed.'' (fetch_and_forwardResponse rt q)"
    by auto
  with assms(1) have "r = q"
    by (simp add: snd_catch_json_500 fetch_and_forwardResponse_eq)
  with assms(2,3) show ?thesis
    by (simp add: q fetch_and_forwardResponse_eq catch_json_500_catches Response_text_fails)
qed

lemma vercel_order_fetches:
  assumes "key \<noteq> []" and "vmethod vreq = Some ''GET''" and "getApiKey env = Some key"
    and "\<forall>p \<in> set requiredParams. \<not> is_missing (query vreq p)"
  shows "snd (vercel_order rt env vreq) =
      [Fetch \<lparr>target = JUPITER_ULTRA_BASE_URL @ ''/order?'' @
                URLSearchParams_toString
                  [(''inputMint'', String_of (query vreq ''inputMint'')),
                   (''outputMint'', String_of (query vreq ''outputMint'')),
                   (''amount'', String_of (query vreq ''amount'')),
                   (''taker'', String_of (query vreq ''taker''))],
              fetch_method = None,
              fetch_headers = [(''x-api-key'', key)],
              fetch_body = None\<rparr>]"
proof -
  from assms(4) have "filter (\<lambda>k. is_missing (query vreq k)) requiredParams = []"
    by (simp add: filter_empty_conv)
  with assms(1-3) show ?thesis
    by (simp add: vercel_order_forwards snd_catch_json_500 fetch_and_forwardResponse_eq)
qed

subsection \<open>The serverless execute handler\<close>

lemma vercel_execute_unconfigured:
  "vmethod vreq = Some ''POST'' \<Longrightarrow> falsy (getApiKey env) \<Longrightarrow>
   vercel_execute rt env vreq =
     (status_json 500 [(''error'',
        ''Jupiter Ultra API key missing. Set JUPITER_ULTRA_API_KEY in Vercel env.'')], [])"
  by (simp add: vercel_execute_def)

lemma vercel_execute_configured:
  "vmethod vreq = Some ''POST'' \<Longrightarrow> getApiKey env = Some key \<Longrightarrow> key \<noteq> [] \<Longrightarrow>
   vercel_execute rt env vreq =
     catch_json_500 ''Jupiter execute request failed.'' (vercel_execute_try rt key vreq)"
  by (simp add: vercel_execute_def)

lemma vercel_execute_try_parseBody_throws:
  "parseBody rt vreq = Inl e \<Longrightarrow> vercel_execute_try rt key vreq = (Inl e, [ReadBody])"
  by (simp add: vercel_execute_try_def)

lemma vercel_execute_try_invalid:
  "parseBody rt vreq = Inr b \<Longrightarrow> get_prop b ''signedTransaction'' = Inr st \<Longrightarrow>
   get_prop b ''requestId'' = Inr rid \<Longrightarrow>
   falsy (string_or_undefined st) \<or> falsy (string_or_undefined rid) \<Longrightarrow>
   vercel_execute_try rt key vreq =
     (Inr (status_json 400 [(''error'',
        ''signedTransaction and requestId are required in the execute payload.'')]),
      [ReadBody])"
  by (simp add: vercel_execute_try_def)

lemma vercel_execute_try_forwards:
  "parseBody rt vreq = Inr b \<Longrightarrow> get_prop b ''signedTransaction'' = Inr (Some (JStr s)) \<Longrightarrow>
   get_prop b ''requestId'' = Inr (Some (JStr r)) \<Longrightarrow> s \<noteq> [] \<Longrightarrow> r \<noteq> [] \<Longrightarrow>
   vercel_execute_try rt key vreq =
     (fst (fetch_and_forwardResponse rt
        \<lparr>target = JUPITER_ULTRA_BASE_URL @ ''/execute'',
         fetch_method = Some ''POST'',
         fetch_headers = [(''x-api-key'', key), (''Content-Type'', ''application/json'')],
         fetch_body = Some (JSON_stringify [(''signedTransaction'', s), (''requestId'', r)])\<rparr>),
      [ReadBody,
       Fetch \<lparr>target = JUPITER_ULTRA_BASE_URL @ ''/execute'',
         fetch_method = Some ''POST'',
         fetch_headers = [(''x-api-key'', key), (''Content-Type'', ''application/json'')],
         fetch_body = Some (JSON_stringify [(''signedTransaction'', s), (''requestId'', r)])\<rparr>])"
  by (simp add: vercel_execute_try_def fetch_and_forwardResponse_eq)

lemma vercel_execute_try_null:
  "parseBody rt vreq = Inr JNull \<Longrightarrow>
   vercel_execute_try rt key vreq =
     (Inl (ErrorObj (''Cannot read properties of null (reading '' @ [CHR 0x27]
        @ ''signedTransaction'' @ [CHR 0x27] @ '')'')), [ReadBody])"
  by (simp add: vercel_execute_try_def)

lemma vercel_execute_try_shape:
  "snd (vercel_execute_try rt key vreq) = [ReadBody] \<or>
   (\<exists>q. vercel_execute_try rt key vreq =
      (fst (fetch_and_forwardResponse rt q), [ReadBody, Fetch q]))"
  by (simp add: vercel_execute_try_def fetch_and_forwardResponse_eq Let_def split: sum.splits)

lemma vercel_execute_effects:
  "\<not> list_ex is_fetch (snd (vercel_execute rt env vreq)) \<or>
   (\<exists>q. vercel_execute rt env vreq =
      catch_json_500 ''Jupiter execute request failed.''
        (fst (fetch_and_forwardResponse rt q), [ReadBody, Fetch q]))"
proof (cases "vmethod vreq = Some ''POST'' \<and> \<not> falsy (getApiKey env)")
  case False
  then show ?thesis
    by (auto simp: vercel_execute_def Let_def)
next
  case True
  then obtain key where k: "getApiKey env = Some key" "key \<noteq> []"
    by (cases "getApiKey env") auto
  with True have eq: "vercel_execute rt env vreq =
      catch_json_500 ''Jupiter execute request failed.'' (vercel_execute_try rt key vreq)"
    by (simp add: vercel_execute_configured)
  from vercel_execute_try_shape [of rt key vreq] show ?thesis
    by (auto simp: eq snd_catch_json_500)
qed

lemma vercel_execute_relays:
  assumes "Fetch r \<in> set (snd (vercel_execute rt env vreq))"
    and "fetch rt r = Inr upstream" and "Response_text rt upstream = Inr b"
  shows "fst (vercel_execute rt env vreq) = relay_spec upstream b"
proof -
  from assms(1) have "list_ex is_fetch (snd (vercel_execute rt env vreq))"
    by (auto simp: list_ex_iff intro!: bexI [of _ "Fetch r"])
  with vercel_execute_effects [of rt env vreq]
  obtain q where q: "vercel_execute rt env vreq =
      catch_json_500 ''Jupiter execute request failed.''
        (fst (fetch_and_forwardResponse rt q), [ReadBody, Fetch q])"
    by auto
  with assms(1) have "r = q"
    by (simp add: snd_catch_json_500)
  with assms(2,3) show ?thesis
    by (simp add: q fetch_and_forwardResponse_eq catch_json_500_returns)
qed

lemma vercel_execute_read_fails:
  assumes "Fetch r \<in> set (snd (vercel_execute rt env vreq))"
    and "fetch rt r = Inr upstream" and "body_bytes upstream = Inl e"
  shows "fst (vercel_execute rt env vreq) =
      status_json 500 [(''error'', message_of e ''Jupiter execute request failed.'')]"
proof -
  from assms(1) have "list_ex is_fetch (snd (vercel_execute rt env vreq))"
    by (auto simp: list_ex_iff intro!: bexI [of _ "Fetch r"])
  with vercel_execute_effects [of rt env vreq]
  obtain q where q: "vercel_execute rt env vreq =
      catch_json_500 ''Jupiter execute request failed.''
        (fst (fetch_and_forwardResponse rt q), [ReadBody, Fetch q])"
    by auto
  with assms(1) have "r = q"
    by (simp add: snd_catch_json_500)
  with assms(2,3) show ?thesis
    by (simp add: q fetch_and_forwardResponse_eq catch_json_500_catches Response_text_fails)
qed

lemma vercel_execute_branches:
  assumes "key \<noteq> []" and "vmethod vreq = Some ''POST''" and "getApiKey env = Some key"
  shows "(parseBody rt vreq = Inl e \<longrightarrow>
            vercel_execute rt env vreq =
              (status_json 500 [(''error'', message_of e ''Jupiter execute request failed.'')],
               [ReadBody]))
       \<and> (parseBody rt vreq = Inr JNull \<longrightarrow>
            vercel_execute rt env vreq =
              (status_json 500 [(''error'', ''Cannot read properties of null (reading ''
                 @ [CHR 0x27] @ ''signedTransaction'' @ [CHR 0x27] @ '')'')], [ReadBody]))
       \<and> (parseBody rt vreq = Inr b
            \<and> get_prop b ''signedTransaction'' = Inr st \<and> get_prop b ''requestId'' = Inr rid
            \<and> (falsy (string_or_undefined st) \<or> falsy (string_or_undefined rid)) \<longrightarrow>
            vercel_execute rt env vreq =
              (status_json 400 [(''error'',
                 ''signedTransaction and requestId are required in the execute payload.'')],
               [ReadBody]))
       \<and> (parseBody rt vreq = Inr b
            \<and> get_prop b ''signedTransaction'' = Inr (Some (JStr s))
            \<and> get_prop b ''requestId'' = Inr (Some (JStr r)) \<and> s \<noteq> [] \<and> r \<noteq> [] \<longrightarrow>
            snd (vercel_execute rt env vreq) =
              [ReadBody,
               Fetch \<lparr>target = JUPITER_ULTRA_BASE_URL @ ''/execute'',
                      fetch_method = Some ''POST'',
                      fetch_headers = [(''x-api-key'', key), (''Content-Type'', ''application/json'')],
                      fetch_body = Some (JSON_stringify
                        [(''signedTransaction'', s), (''requestId'', r)])\<rparr>])
       \<and> (vbody vreq = Inr (Some (JStr t)) \<and> JSON_parse rt t = Inl m \<longrightarrow>
            vercel_execute rt env vreq = (status_json 500 [(''error'', m)], [ReadBody]))
       \<and> (vbody vreq = Inr None \<longrightarrow>
            vercel_execute rt env vreq =
              (status_json 400 [(''error'',
                 ''signedTransaction and requestId are required in the execute payload.'')],
               [ReadBody]))"
proof -
  have c: "vercel_execute rt env vreq =
      catch_json_500 ''Jupiter execute request failed.'' (vercel_execute_try rt key vreq)"
    using assms by (simp add: vercel_execute_configured)
  have invalid: "parseBody rt vreq = Inr b \<Longrightarrow> get_prop b ''signedTransaction'' = Inr st \<Longrightarrow>
      get_prop b ''requestId'' = Inr rid \<Longrightarrow>
      falsy (string_or_undefined st) \<or> falsy (string_or_undefined rid) \<Longrightarrow>
      vercel_execute rt env vreq =
        (status_json 400 [(''error'',
           ''signedTransaction and requestId are required in the execute payload.'')],
         [ReadBody])" for b st rid
    by (simp only: c vercel_execute_try_invalid catch_json_500_returns)
  have throws: "parseBody rt vreq = Inl x \<Longrightarrow>
      vercel_execute rt env vreq =
        (status_json 500 [(''error'', message_of x ''Jupiter execute request failed.'')],
         [ReadBody])" for x
    by (simp add: c vercel_execute_try_parseBody_throws catch_json_500_catches)
  show ?thesis
  proof (intro conjI impI)
    assume "parseBody rt vreq = Inl e"
    then show "vercel_execute rt env vreq =
        (status_json 500 [(''error'', message_of e ''Jupiter execute request failed.'')],
         [ReadBody])"
      by (rule throws)
  next
    assume "parseBody rt vreq = Inr JNull"
    then show "vercel_execute rt env vreq =
        (status_json 500 [(''error'', ''Cannot read properties of null (reading ''
           @ [CHR 0x27] @ ''signedTransaction'' @ [CHR 0x27] @ '')'')], [ReadBody])"
      by (simp add: c vercel_execute_try_null catch_json_500_catches)
  next
    assume "parseBody rt vreq = Inr b
        \<and> get_prop b ''signedTransaction'' = Inr st \<and> get_prop b ''requestId'' = Inr rid
        \<and> (falsy (string_or_undefined st) \<or> falsy (string_or_undefined rid))"
    then show "vercel_execute rt env vreq =
        (status_json 400 [(''error'',
           ''signedTransaction and requestId are required in the execute payload.'')],
         [ReadBody])"
      by (blast intro: invalid)
  next
    assume "parseBody rt vreq = Inr b
        \<and> get_prop b ''signedTransaction'' = Inr (Some (JStr s))
        \<and> get_prop b ''requestId'' = Inr (Some (JStr r)) \<and> s \<noteq> [] \<and> r \<noteq> []"
    then show "snd (vercel_execute rt env vreq) =
        [ReadBody,
         Fetch \<lparr>target = JUPITER_ULTRA_BASE_URL @ ''/execute'',
                fetch_method = Some ''POST'',
                fetch_headers = [(''x-api-key'', key), (''Content-Type'', ''application/json'')],
                fetch_body = Some (JSON_stringify
                  [(''signedTransaction'', s), (''requestId'', r)])\<rparr>]"
      by (simp add: c snd_catch_json_500 vercel_execute_try_forwards)
  next
    assume "vbody vreq = Inr (Some (JStr t)) \<and> JSON_parse rt t = Inl m"
    then have "parseBody rt vreq = Inl (ErrorObj m)"
      by (simp add: parseBody_invalid)
    then show "vercel_execute rt env vreq = (status_json 500 [(''error'', m)], [ReadBody])"
      using throws [of "ErrorObj m"] by simp
  next
    assume "vbody vreq = Inr None"
    then have "parseBody rt vreq = Inr (JObj [])"
      by (rule parseBody_undefined)
    then show "vercel_execute rt env vreq =
        (status_json 400 [(''error'',
           ''signedTransaction and requestId are required in the execute payload.'')],
         [ReadBody])"
      by (rule invalid [where st = None and rid = None]) simp_all
  qed
qed

subsection \<open>Replacing the key\<close>





















subsection \<open>The examples, evaluated\<close>

lemmas sample_defs = sample_rt_def sample_JSON_parse_def sample_new_URL_def sample_hmac_def
  sample_fetch_def sample_env_def no_env_def other_env_def getApiKey_def
  sample_Buffer_toString_def sample_utf8_decode_def replacement_character_def e_acute_def
  byte_order_mark_def

lemmas stringify_defs = JSON_stringify_def quote_string_def quote_char_def

lemma JSON_stringify_signature:
  \<open>JSON_stringify [(''signature'', ''Wb20+YzRSP4+tVjJXH4b2JGT47jh7qZ/7qyTvnftxBY='')] =
     ''{"signature":"Wb20+YzRSP4+tVjJXH4b2JGT47jh7qZ/7qyTvnftxBY="}''\<close>
  \<open>JSON_stringify [(''signature'', ''CrPTpvqt+MvEzhpsJiZNbrlAfT1WMb3whZcsTBolLOw='')] =
     ''{"signature":"CrPTpvqt+MvEzhpsJiZNbrlAfT1WMb3whZcsTBolLOw="}''\<close>
  by (simp_all add: stringify_defs)

lemma stringify_missing_amount:
  \<open>JSON_stringify [(''error'', ''Missing required parameter: '' @ ''amount'')] =
     ''{"error":"Missing required parameter: amount"}''\<close>
  by (simp add: stringify_defs)

lemma stringify_execute_body:
  \<open>JSON_stringify [(''signedTransaction'', ''AQID''), (''requestId'', ''r-1'')] =
     ''{"signedTransaction":"AQID","requestId":"r-1"}''\<close>
  by (simp add: stringify_defs)

lemma stringify_execute_messages:
  \<open>JSON_stringify [(''error'',
      ''signedTransaction and requestId are required in the Jupiter execute payload.'')] =
     ''{"error":"signedTransaction and requestId are required in the Jupiter execute payload."}''\<close>
  \<open>JSON_stringify [(''error'',
      ''signedTransaction and requestId are required in the execute payload.'')] =
     ''{"error":"signedTransaction and requestId are required in the execute payload."}''\<close>
  \<open>JSON_stringify [(''error'', ''Unexpected end of JSON input'')] =
     ''{"error":"Unexpected end of JSON input"}''\<close>
  by (simp_all add: stringify_defs)

lemma urlencode_sample:
  "URLSearchParams_toString
     [(''inputMint'', ''So11''), (''outputMint'', ''EPjF''), (''amount'', ''1000''),
      (''taker'', ''Tk1'')] = ''inputMint=So11&outputMint=EPjF&amount=1000&taker=Tk1''"
  by (simp add: URLSearchParams_toString_def urlencode_def urlencode_byte_def)

lemma urlencode_repeated:
  "URLSearchParams_toString
     [(''inputMint'', '',''), (''outputMint'', ''EPjF''), (''amount'', ''1000''),
      (''taker'', ''Tk1'')] = ''inputMint=%2C&outputMint=EPjF&amount=1000&taker=Tk1''"
  by (simp add: URLSearchParams_toString_def urlencode_def urlencode_byte_def HEX_digit_def)

lemma execute_request_body:
  "readBody sample_rt execute_request =
     Inr (JObj [(''signedTransaction'', JStr ''AQID''), (''requestId'', JStr ''r-1''),
                (''note'', JStr ''x'')])"
  by (simp add: readBody_def execute_request_def sample_defs)

lemma sample_order_effects:
  "snd (jupiter_order sample_rt (Some ''jk'') order_request_full) =
     [Fetch \<lparr>target = ''https://api.jup.ag/ultra/v1/order'' @
               ''?taker=Tk1&amount=1000&outputMint=EPjF&inputMint=So11'',
             fetch_method = Some ''GET'', fetch_headers = [(''x-api-key'', ''jk'')],
             fetch_body = None\<rparr>]"
  by (simp add: jupiter_order_def ensureApiKey_def order_try_def snd_catch_500
      fetch_and_forward_eq order_request_full_def sample_defs searchParams_get_def
      requiredParams_def JUPITER_ULTRA_BASE_URL_def)

lemma sample_vercel_order_effects:
  "snd (vercel_order sample_rt sample_env vercel_order_full) =
     [Fetch \<lparr>target = ''https://api.jup.ag/ultra/v1/order'' @
               ''?inputMint=So11&outputMint=EPjF&amount=1000&taker=Tk1'',
             fetch_method = None, fetch_headers = [(''x-api-key'', ''jk'')],
             fetch_body = None\<rparr>]"
  by (simp add: vercel_order_def vercel_order_full_def snd_catch_json_500
      fetch_and_forwardResponse_eq sample_defs urlencode_sample JUPITER_ULTRA_BASE_URL_def)

lemma sample_execute_effects:
  \<open>snd (jupiter_execute sample_rt (Some ''jk'') execute_request) =
     [ReadBody,
      Fetch \<lparr>target = ''https://api.jup.ag/ultra/v1/execute'', fetch_method = Some ''POST'',
             fetch_headers = [(''x-api-key'', ''jk''), (''Content-Type'', ''application/json'')],
             fetch_body = Some ''{"signedTransaction":"AQID","requestId":"r-1"}''\<rparr>]\<close>
proof -
  have "http_method execute_request = Some ''POST''"
    by (simp add: execute_request_def)
  then have "snd (jupiter_execute sample_rt (Some ''jk'') execute_request) =
      snd (execute_try sample_rt ''jk'' execute_request)"
    by (simp add: jupiter_execute_configured snd_catch_500)
  then show ?thesis
    using execute_try_forwards [OF execute_request_body, where s = "''AQID''" and r = "''r-1''"
        and key = "''jk''"]
    by (simp add: stringify_execute_body JUPITER_ULTRA_BASE_URL_def)
qed

lemma sample_vercel_execute_effects:
  \<open>snd (vercel_execute sample_rt sample_env vercel_execute_request) =
     [ReadBody,
      Fetch \<lparr>target = ''https://api.jup.ag/ultra/v1/execute'', fetch_method = Some ''POST'',
             fetch_headers = [(''x-api-key'', ''jk''), (''Content-Type'', ''application/json'')],
             fetch_body = Some ''{"signedTransaction":"AQID","requestId":"r-1"}''\<rparr>]\<close>
proof -
  have "vmethod vercel_execute_request = Some ''POST''"
    and b: "vbody vercel_execute_request =
      Inr (Some (JObj [(''signedTransaction'', JStr ''AQID''), (''requestId'', JStr ''r-1''),
                       (''note'', JStr ''x'')]))"
    by (simp_all add: vercel_execute_request_def)
  then have "snd (vercel_execute sample_rt sample_env vercel_execute_request) =
      snd (vercel_execute_try sample_rt ''jk'' vercel_execute_request)"
    by (simp add: vercel_execute_configured [where key = "''jk''"] snd_catch_json_500
        sample_env_def getApiKey_def)
  then show ?thesis
    using vercel_execute_try_forwards [OF parseBody_object [OF b], where s = "''AQID''"
        and r = "''r-1''" and key = "''jk''" and rt = sample_rt]
    by (simp add: stringify_execute_body JUPITER_ULTRA_BASE_URL_def)
qed

lemma sample_execute_target:
  "fetch sample_rt \<lparr>target = ''https://api.jup.ag/ultra/v1/execute'', fetch_method = m,
      fetch_headers = h, fetch_body = bd\<rparr> =
     Inr \<lparr>status = 502, content_type = None, body_bytes = Inr []\<rparr>"
  by (simp add: sample_rt_def sample_fetch_def)

lemma broken_order_effects:
  "snd (jupiter_order broken_rt (Some ''jk'') order_request_full) =
     [Fetch \<lparr>target = ''https://api.jup.ag/ultra/v1/order'' @
               ''?taker=Tk1&amount=1000&outputMint=EPjF&inputMint=So11'',
             fetch_method = Some ''GET'', fetch_headers = [(''x-api-key'', ''jk'')],
             fetch_body = None\<rparr>]"
  by (simp add: jupiter_order_def ensureApiKey_def order_try_def snd_catch_500
      fetch_and_forward_eq order_request_full_def broken_rt_def sample_rt_def sample_new_URL_def
      searchParams_get_def requiredParams_def JUPITER_ULTRA_BASE_URL_def)

text \<open>
  The scenario of the specification: the url \<open>https://x.example/pay?a=1&b=2\<close>, sent in
  two chunks of ASCII, under the secret \<open>k\<close>.
\<close>

lemma sign_scenario:
  \<open>registerMoonPaySignatureEndpoint sample_rt (Some ''k'') sign_request =
     (\<lparr>statusCode = 200, headers = [(''Content-Type'', ''application/json'')],
       body = ''{"signature":"Wb20+YzRSP4+tVjJXH4b2JGT47jh7qZ/7qyTvnftxBY="}''\<rparr>, [ReadBody])\<close>
proof -
  have "registerMoonPaySignatureEndpoint sample_rt (Some ''k'') sign_request =
      (\<lparr>statusCode = 200, headers = [(''Content-Type'', ''application/json'')],
        body = JSON_stringify [(''signature'',
          hmac_sha256_base64 sample_rt ''k''
            (search \<lparr>search = ''?a=1&b=2'', searchParams = [(''a'', ''1''), (''b'', ''2'')]\<rparr>))]\<rparr>,
       [ReadBody])"
    by (rule signs_query_of_read_url
          [where chunks = \<open>[''{"url":"https://x.example'', ''/pay?a=1&b=2"}'']\<close>
             and props = "[(''url'', JStr ''https://x.example/pay?a=1&b=2'')]"
             and u = "''https://x.example/pay?a=1&b=2''"])
       (simp_all add: sign_request_def sample_defs)
  then show ?thesis
    by (simp add: sample_rt_def sample_hmac_def JSON_stringify_signature)
qed

section \<open>The claims\<close>

text \<open>
  C1 fails on the code at a body that the transport cuts inside a character. The body of
  the request below is a JSON object whose \<open>url\<close> parses as a URL with the query
  \<open>?q=%C3%A9\<close>, whose base64 HMAC-SHA256 under the secret \<open>k\<close> begins with \<open>oW8t\<close>. The
  body arrives in two chunks, the first ending with the first byte of the accented
  letter. \<open>readBody\<close> decodes the chunks one by one, so the url it reads holds two
  U+FFFD in place of the letter, and the endpoint answers 200 with the digest of
  \<open>?q=%EF%BF%BD%EF%BF%BD\<close>, which begins with \<open>CrPT\<close>.
\<close>

theorem sign_split_character:
  \<open>concat split_request_chunks = ''{"url":"https://x.example/pay?q='' @ [CHR 0xC3, CHR 0xA9] @ ''"}''
   \<and> JSON_parse sample_rt (concat split_request_chunks) =
       Inr (JObj [(''url'', JStr (''https://x.example/pay?q='' @ [CHR 0xC3, CHR 0xA9]))])
   \<and> new_URL sample_rt (''https://x.example/pay?q='' @ [CHR 0xC3, CHR 0xA9]) None =
       Inr \<lparr>search = ''?q=%C3%A9'', searchParams = [(''q'', [CHR 0xC3, CHR 0xA9])]\<rparr>
   \<and> hmac_sha256_base64 sample_rt ''k'' ''?q=%C3%A9'' =
       ''oW8tgnKFLhSDrpvwGaaWG/MjrJNBnUhAF20luwHIsHU=''
   \<and> hmac_sha256_base64 sample_rt ''k'' ''?q=%EF%BF%BD%EF%BF%BD'' =
       ''CrPTpvqt+MvEzhpsJiZNbrlAfT1WMb3whZcsTBolLOw=''
   \<and> registerMoonPaySignatureEndpoint sample_rt (Some ''k'') split_request =
       (\<lparr>statusCode = 200, headers = [(''Content-Type'', ''application/json'')],
         body = ''{"signature":"CrPTpvqt+MvEzhpsJiZNbrlAfT1WMb3whZcsTBolLOw="}''\<rparr>, [ReadBody])\<close>
proof -
  have "registerMoonPaySignatureEndpoint sample_rt (Some ''k'') split_request =
      (sendJson 200 [(''signature'', ''CrPTpvqt+MvEzhpsJiZNbrlAfT1WMb3whZcsTBolLOw='')], [ReadBody])"
    by (simp add: registerMoonPaySignatureEndpoint_def sign_try_def readBody_def
        split_request_def split_request_chunks_def sample_defs)
  then show ?thesis
    by (simp add: sendJson_def JSON_stringify_signature split_request_chunks_def sample_defs)
qed

text \<open>
  C2, as the code has it. For a POST to the signing endpoint: without a secret the answer
  is 500 with a message that says so, and the body is not read; with a secret, a \<open>url\<close>
  that is missing, not a string or empty gives 400; a non-empty \<open>url\<close> that the URL parser
  rejects gives 500 with the parser's message, through the \<open>catch\<close>; and whatever else
  the \<open>try\<close> block throws gives 500 with the message of the thrown Error (the fixed
  text \<open>MoonPay signature generation failed.\<close> for a thrown value that is no Error).
\<close>

theorem sign_error_responses:
  assumes "http_method req = Some ''POST''"
  shows "(falsy secret \<longrightarrow>
            registerMoonPaySignatureEndpoint rt secret req =
              (sendJson 500 [(''error'', ''MoonPay secret key is not configured on the server.'')],
               []))
       \<and> (secret = Some k \<and> k \<noteq> [] \<and> readBody rt req = Inr b \<and> get_prop b ''url'' = Inr v
            \<and> falsy (string_or_undefined v) \<longrightarrow>
            registerMoonPaySignatureEndpoint rt secret req =
              (sendJson 400 [(''error'', ''Missing url in MoonPay signature payload.'')],
               [ReadBody]))
       \<and> (secret = Some k \<and> k \<noteq> [] \<and> readBody rt req = Inr b
            \<and> get_prop b ''url'' = Inr (Some (JStr u)) \<and> u \<noteq> [] \<and> new_URL rt u None = Inl m \<longrightarrow>
            registerMoonPaySignatureEndpoint rt secret req =
              (sendJson 500 [(''error'', m)], [ReadBody]))
       \<and> (secret = Some k \<and> k \<noteq> [] \<and> sign_try rt k req = Inl e \<longrightarrow>
            registerMoonPaySignatureEndpoint rt secret req =
              (sendJson 500 [(''error'', message_of e ''MoonPay signature generation failed.'')],
               [ReadBody]))"
proof (intro conjI impI)
  assume "falsy secret"
  with assms show "registerMoonPaySignatureEndpoint rt secret req =
      (sendJson 500 [(''error'', ''MoonPay secret key is not configured on the server.'')], [])"
    by (rule sign_endpoint_unconfigured)
next
  assume h: "secret = Some k \<and> k \<noteq> [] \<and> readBody rt req = Inr b \<and> get_prop b ''url'' = Inr v
      \<and> falsy (string_or_undefined v)"
  then have "sign_try rt k req =
      Inr (sendJson 400 [(''error'', ''Missing url in MoonPay signature payload.'')])"
    by (simp add: sign_try_missing_url)
  with assms h show "registerMoonPaySignatureEndpoint rt secret req =
      (sendJson 400 [(''error'', ''Missing url in MoonPay signature payload.'')], [ReadBody])"
    by (simp add: sign_endpoint_returns)
next
  assume h: "secret = Some k \<and> k \<noteq> [] \<and> readBody rt req = Inr b
      \<and> get_prop b ''url'' = Inr (Some (JStr u)) \<and> u \<noteq> [] \<and> new_URL rt u None = Inl m"
  then have "sign_try rt k req = Inl (ErrorObj m)"
    by (simp add: sign_try_bad_url)
  with assms h show "registerMoonPaySignatureEndpoint rt secret req =
      (sendJson 500 [(''error'', m)], [ReadBody])"
    by (simp add: sign_endpoint_catches)
next
  assume "secret = Some k \<and> k \<noteq> [] \<and> sign_try rt k req = Inl e"
  with assms show "registerMoonPaySignatureEndpoint rt secret req =
      (sendJson 500 [(''error'', message_of e ''MoonPay signature generation failed.'')],
       [ReadBody])"
    by (simp add: sign_endpoint_catches)
qed

text \<open>
  The four cases of C2 at concrete requests: no secret; an empty body; a url that is no
  URL; the body \<open>null\<close>, whose property read throws.
\<close>

theorem sign_error_responses_witness:
  "registerMoonPaySignatureEndpoint sample_rt None sign_request =
     (sendJson 500 [(''error'', ''MoonPay secret key is not configured on the server.'')], [])
   \<and> registerMoonPaySignatureEndpoint sample_rt (Some ''k'') empty_post =
     (sendJson 400 [(''error'', ''Missing url in MoonPay signature payload.'')], [ReadBody])
   \<and> registerMoonPaySignatureEndpoint sample_rt (Some ''k'') bad_url_request =
     (sendJson 500 [(''error'', ''Invalid URL'')], [ReadBody])
   \<and> registerMoonPaySignatureEndpoint sample_rt (Some ''k'') null_post =
     (sendJson 500 [(''error'', ''Cannot read properties of null (reading '' @ [CHR 0x27] @ ''url'' @ [CHR 0x27] @ '')'')],
      [ReadBody])"
proof -
  have "registerMoonPaySignatureEndpoint sample_rt None sign_request =
      (sendJson 500 [(''error'', ''MoonPay secret key is not configured on the server.'')], [])"
    using sign_error_responses [where req = sign_request and secret = None and rt = sample_rt]
    by (simp add: sign_request_def)
  moreover have "registerMoonPaySignatureEndpoint sample_rt (Some ''k'') empty_post =
      (sendJson 400 [(''error'', ''Missing url in MoonPay signature payload.'')], [ReadBody])"
    using sign_error_responses [where req = empty_post and secret = "Some ''k''" and k = "''k''"
        and rt = sample_rt and b = "JObj []" and v = None]
    by (simp add: empty_post_def readBody_def)
  moreover have "registerMoonPaySignatureEndpoint sample_rt (Some ''k'') bad_url_request =
      (sendJson 500 [(''error'', ''Invalid URL'')], [ReadBody])"
    using sign_error_responses [where req = bad_url_request and secret = "Some ''k''"
        and k = "''k''" and rt = sample_rt and b = "JObj [(''url'', JStr ''not a url'')]"
        and u = "''not a url''" and m = "''Invalid URL''"]
    by (simp add: bad_url_request_def readBody_def sample_defs)
  moreover have "registerMoonPaySignatureEndpoint sample_rt (Some ''k'') null_post =
      (sendJson 500 [(''error'', ''Cannot read properties of null (reading '' @ [CHR 0x27] @ ''url'' @ [CHR 0x27] @ '')'')],
       [ReadBody])"
    using sign_error_responses [where req = null_post and secret = "Some ''k''" and k = "''k''"
        and rt = sample_rt
        and e = "ErrorObj (''Cannot read properties of null (reading '' @ [CHR 0x27] @ ''url'' @ [CHR 0x27] @ '')'')"]
    by (simp add: null_post_def sign_try_def readBody_def sample_defs)
  ultimately show ?thesis
    by (intro conjI)
qed

text \<open>
  C2 as stated fails: the string \<open>not a url\<close> does not parse as a URL, and the endpoint
  answers 500 with the parser's message, not 400.
\<close>

theorem sign_invalid_url_counterexample:
  \<open>new_URL sample_rt ''not a url'' None = Inl ''Invalid URL''
   \<and> fst (registerMoonPaySignatureEndpoint sample_rt (Some ''k'') bad_url_request) =
       \<lparr>statusCode = 500, headers = [(''Content-Type'', ''application/json'')],
        body = ''{"error":"Invalid URL"}''\<rparr>\<close>
  by (simp add: registerMoonPaySignatureEndpoint_def sign_try_def readBody_def bad_url_request_def
      sample_defs sendJson_def stringify_defs)

text \<open>
  C3, as the code has it. With the API key configured, a GET to the order middleware
  whose url does not parse is answered with 500 and the parser's message. When the url
  parses and, for one of the required parameters, \<open>searchParams.get\<close> gives null or
  the empty string (the first value of that name is absent or empty), the answer is 400
  with \<open>Missing required parameter:\<close> followed by the first such parameter in the
  order inputMint, outputMint, amount, taker; there is a first one whenever there is
  one. The serverless order handler counts a parameter as missing when \<open>req.query\<close>
  has no value, the empty string or an empty array for it: if any is missing it answers
  400 with \<open>Missing required parameter(s):\<close> followed by all the missing ones, in that
  order, separated by commas; if none is, it calls upstream, and a parameter given more
  than once is an array that is not empty, so it counts as present even when its values
  are empty. The answers 400 and 500 come without an upstream call.
\<close>

theorem order_missing_parameter:
  assumes "key \<noteq> []"
  shows "(http_method req = Some ''GET''
            \<and> new_URL rt (case url req of None \<Rightarrow> [] | Some s \<Rightarrow> s) (Some ''http://localhost'') = Inl m \<longrightarrow>
            jupiter_order rt (Some key) req = (sendJson 500 [(''error'', m)], []))
       \<and> (http_method req = Some ''GET''
            \<and> new_URL rt (case url req of None \<Rightarrow> [] | Some s \<Rightarrow> s) (Some ''http://localhost'') = Inr u
            \<and> requiredParams = pre @ p # post \<and> falsy (searchParams_get u p)
            \<and> (\<forall>q \<in> set pre. \<not> falsy (searchParams_get u q)) \<longrightarrow>
            jupiter_order rt (Some key) req =
              (sendJson 400 [(''error'', ''Missing required parameter: '' @ p)], []))
       \<and> (p \<in> set requiredParams \<and> falsy (searchParams_get u p) \<longrightarrow>
            (\<exists>pre p' post. requiredParams = pre @ p' # post \<and> falsy (searchParams_get u p')
               \<and> (\<forall>q \<in> set pre. \<not> falsy (searchParams_get u q))))
       \<and> falsy x = (x = None \<or> x = Some [])
       \<and> (vmethod vreq = Some ''GET'' \<and> getApiKey env = Some key
            \<and> filter (\<lambda>k. is_missing (query vreq k)) requiredParams = missing \<and> missing \<noteq> [] \<longrightarrow>
            vercel_order rt env vreq =
              (status_json 400
                 [(''error'', ''Missing required parameter(s): '' @ join '', '' missing)], []))
       \<and> (vmethod vreq = Some ''GET'' \<and> getApiKey env = Some key
            \<and> (\<forall>p \<in> set requiredParams. \<not> is_missing (query vreq p)) \<longrightarrow>
            snd (vercel_order rt env vreq) =
              [Fetch \<lparr>target = JUPITER_ULTRA_BASE_URL @ ''/order?'' @
                        URLSearchParams_toString
                          [(''inputMint'', String_of (query vreq ''inputMint'')),
                           (''outputMint'', String_of (query vreq ''outputMint'')),
                           (''amount'', String_of (query vreq ''amount'')),
                           (''taker'', String_of (query vreq ''taker''))],
                      fetch_method = None,
                      fetch_headers = [(''x-api-key'', key)],
                      fetch_body = None\<rparr>])
       \<and> is_missing v = (v = None \<or> v = Some (QStr []) \<or> v = Some (QArr []))"
proof (intro conjI impI)
  assume h: "http_method req = Some ''GET''
      \<and> new_URL rt (case url req of None \<Rightarrow> [] | Some s \<Rightarrow> s) (Some ''http://localhost'') = Inl m"
  then have "order_try rt key req = (Inl (ErrorObj m), [])"
    by (simp add: order_try_bad_url)
  with h assms show "jupiter_order rt (Some key) req = (sendJson 500 [(''error'', m)], [])"
    by (simp add: jupiter_order_configured catch_500_catches)
next
  assume h: "http_method req = Some ''GET''
      \<and> new_URL rt (case url req of None \<Rightarrow> [] | Some s \<Rightarrow> s) (Some ''http://localhost'') = Inr u
      \<and> requiredParams = pre @ p # post \<and> falsy (searchParams_get u p)
      \<and> (\<forall>q \<in> set pre. \<not> falsy (searchParams_get u q))"
  then have "first_missing u requiredParams = Some p"
    by (blast intro: first_missing_Some)
  with h have "order_try rt key req =
      (Inr (sendJson 400 [(''error'', ''Missing required parameter: '' @ p)]), [])"
    by (blast intro: order_try_missing)
  with h assms show "jupiter_order rt (Some key) req =
      (sendJson 400 [(''error'', ''Missing required parameter: '' @ p)], [])"
    by (simp add: jupiter_order_configured catch_500_returns)
next
  assume "p \<in> set requiredParams \<and> falsy (searchParams_get u p)"
  then show "\<exists>pre p' post. requiredParams = pre @ p' # post \<and> falsy (searchParams_get u p')
      \<and> (\<forall>q \<in> set pre. \<not> falsy (searchParams_get u q))"
    by (blast intro: first_missing_split)
next
  show "falsy x = (x = None \<or> x = Some [])"
    by (rule falsy_iff)
next
  assume "vmethod vreq = Some ''GET'' \<and> getApiKey env = Some key
      \<and> filter (\<lambda>k. is_missing (query vreq k)) requiredParams = missing \<and> missing \<noteq> []"
  with assms show "vercel_order rt env vreq =
      (status_json 400
         [(''error'', ''Missing required parameter(s): '' @ join '', '' missing)], [])"
    by (blast intro: vercel_order_missing)
next
  assume "vmethod vreq = Some ''GET'' \<and> getApiKey env = Some key
      \<and> (\<forall>p \<in> set requiredParams. \<not> is_missing (query vreq p))"
  with assms show "snd (vercel_order rt env vreq) =
      [Fetch \<lparr>target = JUPITER_ULTRA_BASE_URL @ ''/order?'' @
                URLSearchParams_toString
                  [(''inputMint'', String_of (query vreq ''inputMint'')),
                   (''outputMint'', String_of (query vreq ''outputMint'')),
                   (''amount'', String_of (query vreq ''amount'')),
                   (''taker'', String_of (query vreq ''taker''))],
              fetch_method = None,
              fetch_headers = [(''x-api-key'', key)],
              fetch_body = None\<rparr>]"
    by (blast intro: vercel_order_fetches)
next
  show "is_missing v = (v = None \<or> v = Some (QStr []) \<or> v = Some (QArr []))"
    by (rule is_missing_iff)
qed

text \<open>
  C3 at concrete requests: a url that does not parse; the scenario, a query with
  inputMint and outputMint only, on both handlers; and a query with inputMint given twice
  and empty, which the serverless handler sends upstream as a comma.
\<close>

theorem order_missing_parameter_witness:
  \<open>jupiter_order sample_rt (Some ''jk'') order_request_unparseable =
     (sendJson 500 [(''error'', ''Invalid URL'')], [])
   \<and> jupiter_order sample_rt (Some ''jk'') order_request_two =
     (\<lparr>statusCode = 400, headers = [(''Content-Type'', ''application/json'')],
       body = ''{"error":"Missing required parameter: amount"}''\<rparr>, [])
   \<and> (\<exists>pre p' post. requiredParams = pre @ p' # post
        \<and> falsy (searchParams_get
             \<lparr>search = ''?inputMint=So11&outputMint=EPjF'',
              searchParams = [(''inputMint'', ''So11''), (''outputMint'', ''EPjF'')]\<rparr> p')
        \<and> (\<forall>q \<in> set pre. \<not> falsy (searchParams_get
             \<lparr>search = ''?inputMint=So11&outputMint=EPjF'',
              searchParams = [(''inputMint'', ''So11''), (''outputMint'', ''EPjF'')]\<rparr> q)))
   \<and> vercel_order sample_rt sample_env vercel_order_two =
     (status_json 400 [(''error'', ''Missing required parameter(s): amount, taker'')], [])
   \<and> snd (vercel_order sample_rt sample_env vercel_order_repeated) =
       [Fetch \<lparr>target = ''https://api.jup.ag/ultra/v1/order'' @
                 ''?inputMint=%2C&outputMint=EPjF&amount=1000&taker=Tk1'',
               fetch_method = None, fetch_headers = [(''x-api-key'', ''jk'')],
               fetch_body = None\<rparr>]\<close>
proof -
  let ?u = "\<lparr>search = ''?inputMint=So11&outputMint=EPjF'',
             searchParams = [(''inputMint'', ''So11''), (''outputMint'', ''EPjF'')]\<rparr>"
  have k: "''jk'' \<noteq> []"
    by simp
  have "jupiter_order sample_rt (Some ''jk'') order_request_unparseable =
      (sendJson 500 [(''error'', ''Invalid URL'')], [])"
    using order_missing_parameter [OF k, where req = order_request_unparseable
        and rt = sample_rt and m = "''Invalid URL''"]
    by (simp add: order_request_unparseable_def sample_rt_def sample_new_URL_def)
  moreover have \<open>jupiter_order sample_rt (Some ''jk'') order_request_two =
     (\<lparr>statusCode = 400, headers = [(''Content-Type'', ''application/json'')],
       body = ''{"error":"Missing required parameter: amount"}''\<rparr>, [])\<close>
    using order_missing_parameter [OF k, where req = order_request_two and rt = sample_rt
        and u = ?u and pre = "[''inputMint'', ''outputMint'']" and p = "''amount''"
        and post = "[''taker'']"]
      stringify_missing_amount
    by (simp add: order_request_two_def sample_rt_def sample_new_URL_def searchParams_get_def
        sendJson_def requiredParams_def)
  moreover have "\<exists>pre p' post. requiredParams = pre @ p' # post
      \<and> falsy (searchParams_get ?u p') \<and> (\<forall>q \<in> set pre. \<not> falsy (searchParams_get ?u q))"
  proof -
    have "''taker'' \<in> set requiredParams \<and> falsy (searchParams_get ?u ''taker'')"
      by (simp add: searchParams_get_def requiredParams_def)
    with order_missing_parameter [OF k, where u = ?u and p = "''taker''"] show ?thesis
      by blast
  qed
  moreover have "vercel_order sample_rt sample_env vercel_order_two =
     (status_json 400 [(''error'', ''Missing required parameter(s): amount, taker'')], [])"
    using order_missing_parameter [OF k, where vreq = vercel_order_two and env = sample_env
        and rt = sample_rt and missing = "[''amount'', ''taker'']"]
    by (simp add: vercel_order_two_def sample_env_def getApiKey_def requiredParams_def)
  moreover have "snd (vercel_order sample_rt sample_env vercel_order_repeated) =
       [Fetch \<lparr>target = ''https://api.jup.ag/ultra/v1/order'' @
                 ''?inputMint=%2C&outputMint=EPjF&amount=1000&taker=Tk1'',
               fetch_method = None, fetch_headers = [(''x-api-key'', ''jk'')],
               fetch_body = None\<rparr>]"
    using order_missing_parameter [OF k, where vreq = vercel_order_repeated and env = sample_env
        and rt = sample_rt]
      urlencode_repeated
    by (simp add: vercel_order_repeated_def sample_env_def getApiKey_def requiredParams_def
        JUPITER_ULTRA_BASE_URL_def)
  ultimately show ?thesis
    by blast
qed

text \<open>
  C3 as stated fails in three ways: with inputMint and outputMint only, the serverless
  handler names amount and taker, and its body is not the one of the scenario; the
  serverless handler sends a query with an empty inputMint, given twice, upstream; and
  the middleware answers a url that does not parse, which has no parameter at all, with
  500.
\<close>

theorem order_missing_parameter_counterexample:
  \<open>fst (vercel_order sample_rt sample_env vercel_order_two) =
     \<lparr>statusCode = 400, headers = [],
      body = ''{"error":"Missing required parameter(s): amount, taker"}''\<rparr>
   \<and> body (fst (vercel_order sample_rt sample_env vercel_order_two)) \<noteq>
       ''{"error":"Missing required parameter: amount"}''
   \<and> query vercel_order_repeated ''inputMint'' = Some (QArr [[], []])
   \<and> snd (vercel_order sample_rt sample_env vercel_order_repeated) =
       [Fetch \<lparr>target = ''https://api.jup.ag/ultra/v1/order'' @
                 ''?inputMint=%2C&outputMint=EPjF&amount=1000&taker=Tk1'',
               fetch_method = None, fetch_headers = [(''x-api-key'', ''jk'')],
               fetch_body = None\<rparr>]
   \<and> jupiter_order sample_rt (Some ''jk'') order_request_unparseable =
       (\<lparr>statusCode = 500, headers = [(''Content-Type'', ''application/json'')],
         body = ''{"error":"Invalid URL"}''\<rparr>, [])\<close>
proof -
  have \<open>fst (vercel_order sample_rt sample_env vercel_order_two) =
     \<lparr>statusCode = 400, headers = [],
      body = ''{"error":"Missing required parameter(s): amount, taker"}''\<rparr>\<close>
    by (simp add: vercel_order_def vercel_order_two_def sample_defs status_json_def stringify_defs)
  moreover have "query vercel_order_repeated ''inputMint'' = Some (QArr [[], []])"
    by (simp add: vercel_order_repeated_def)
  moreover have "snd (vercel_order sample_rt sample_env vercel_order_repeated) =
       [Fetch \<lparr>target = ''https://api.jup.ag/ultra/v1/order'' @
                 ''?inputMint=%2C&outputMint=EPjF&amount=1000&taker=Tk1'',
               fetch_method = None, fetch_headers = [(''x-api-key'', ''jk'')],
               fetch_body = None\<rparr>]"
    by (simp add: vercel_order_def vercel_order_repeated_def snd_catch_json_500
        fetch_and_forwardResponse_eq sample_env_def getApiKey_def urlencode_repeated
        JUPITER_ULTRA_BASE_URL_def)
  moreover have \<open>jupiter_order sample_rt (Some ''jk'') order_request_unparseable =
       (\<lparr>statusCode = 500, headers = [(''Content-Type'', ''application/json'')],
         body = ''{"error":"Invalid URL"}''\<rparr>, [])\<close>
    by (simp add: jupiter_order_def ensureApiKey_def order_try_def catch_500_def
        order_request_unparseable_def sample_rt_def sample_new_URL_def sendJson_def stringify_defs)
  ultimately show ?thesis
    by simp
qed

text \<open>
  C4. On the four proxy handlers a request with the accepted method but without a
  configured API key (undefined or empty) is answered with 500 and nothing else is
  done, whatever its query or body is: the key is checked before any field. With the key
  configured, a request in which a required query parameter or body field is missing is
  answered with 400, and no upstream call is made (the execute handlers have read the
  body by then).
\<close>

theorem no_upstream_call_on_rejection:
  "(http_method req = Some ''GET'' \<and> falsy apiKey \<longrightarrow>
      statusCode (fst (jupiter_order rt apiKey req)) = 500 \<and> snd (jupiter_order rt apiKey req) = [])
   \<and> (http_method req = Some ''POST'' \<and> falsy apiKey \<longrightarrow>
      statusCode (fst (jupiter_execute rt apiKey req)) = 500
      \<and> snd (jupiter_execute rt apiKey req) = [])
   \<and> (vmethod vreq = Some ''GET'' \<and> falsy (getApiKey env) \<longrightarrow>
      statusCode (fst (vercel_order rt env vreq)) = 500 \<and> snd (vercel_order rt env vreq) = [])
   \<and> (vmethod vreq = Some ''POST'' \<and> falsy (getApiKey env) \<longrightarrow>
      statusCode (fst (vercel_execute rt env vreq)) = 500 \<and> snd (vercel_execute rt env vreq) = [])
   \<and> (http_method req = Some ''GET'' \<and> apiKey = Some key \<and> key \<noteq> []
        \<and> new_URL rt (case url req of None \<Rightarrow> [] | Some s \<Rightarrow> s) (Some ''http://localhost'') = Inr u
        \<and> p \<in> set requiredParams \<and> falsy (searchParams_get u p) \<longrightarrow>
      statusCode (fst (jupiter_order rt apiKey req)) = 400 \<and> snd (jupiter_order rt apiKey req) = [])
   \<and> (http_method req = Some ''POST'' \<and> apiKey = Some key \<and> key \<noteq> []
        \<and> readBody rt req = Inr b \<and> get_prop b ''signedTransaction'' = Inr st
        \<and> get_prop b ''requestId'' = Inr rid
        \<and> (falsy (string_or_undefined st) \<or> falsy (string_or_undefined rid)) \<longrightarrow>
      statusCode (fst (jupiter_execute rt apiKey req)) = 400
      \<and> snd (jupiter_execute rt apiKey req) = [ReadBody])
   \<and> (vmethod vreq = Some ''GET'' \<and> getApiKey env = Some key \<and> key \<noteq> []
        \<and> p \<in> set requiredParams \<and> is_missing (query vreq p) \<longrightarrow>
      statusCode (fst (vercel_order rt env vreq)) = 400 \<and> snd (vercel_order rt env vreq) = [])
   \<and> (vmethod vreq = Some ''POST'' \<and> getApiKey env = Some key \<and> key \<noteq> []
        \<and> parseBody rt vreq = Inr b \<and> get_prop b ''signedTransaction'' = Inr st
        \<and> get_prop b ''requestId'' = Inr rid
        \<and> (falsy (string_or_undefined st) \<or> falsy (string_or_undefined rid)) \<longrightarrow>
      statusCode (fst (vercel_execute rt env vreq)) = 400
      \<and> snd (vercel_execute rt env vreq) = [ReadBody])"
proof -
  have a: "http_method req = Some ''GET'' \<and> falsy apiKey \<longrightarrow>
      statusCode (fst (jupiter_order rt apiKey req)) = 500 \<and> snd (jupiter_order rt apiKey req) = []"
    by (simp add: jupiter_order_unconfigured sendJson_def)
  have b: "http_method req = Some ''POST'' \<and> falsy apiKey \<longrightarrow>
      statusCode (fst (jupiter_execute rt apiKey req)) = 500
      \<and> snd (jupiter_execute rt apiKey req) = []"
    by (simp add: jupiter_execute_unconfigured sendJson_def)
  have c: "vmethod vreq = Some ''GET'' \<and> falsy (getApiKey env) \<longrightarrow>
      statusCode (fst (vercel_order rt env vreq)) = 500 \<and> snd (vercel_order rt env vreq) = []"
    by (simp add: vercel_order_unconfigured status_json_def)
  have d: "vmethod vreq = Some ''POST'' \<and> falsy (getApiKey env) \<longrightarrow>
      statusCode (fst (vercel_execute rt env vreq)) = 500 \<and> snd (vercel_execute rt env vreq) = []"
    by (simp add: vercel_execute_unconfigured status_json_def)
  have e: "http_method req = Some ''GET'' \<and> apiKey = Some key \<and> key \<noteq> []
        \<and> new_URL rt (case url req of None \<Rightarrow> [] | Some s \<Rightarrow> s) (Some ''http://localhost'') = Inr u
        \<and> p \<in> set requiredParams \<and> falsy (searchParams_get u p) \<longrightarrow>
      statusCode (fst (jupiter_order rt apiKey req)) = 400 \<and> snd (jupiter_order rt apiKey req) = []"
  proof
    assume h: "http_method req = Some ''GET'' \<and> apiKey = Some key \<and> key \<noteq> []
        \<and> new_URL rt (case url req of None \<Rightarrow> [] | Some s \<Rightarrow> s) (Some ''http://localhost'') = Inr u
        \<and> p \<in> set requiredParams \<and> falsy (searchParams_get u p)"
    then obtain q where "first_missing u requiredParams = Some q"
      using first_missing_exists by blast
    with h have "order_try rt key req =
        (Inr (sendJson 400 [(''error'', ''Missing required parameter: '' @ q)]), [])"
      by (blast intro: order_try_missing)
    with h show "statusCode (fst (jupiter_order rt apiKey req)) = 400
        \<and> snd (jupiter_order rt apiKey req) = []"
      by (simp add: jupiter_order_configured catch_500_returns sendJson_def)
  qed
  have f: "http_method req = Some ''POST'' \<and> apiKey = Some key \<and> key \<noteq> []
        \<and> readBody rt req = Inr b \<and> get_prop b ''signedTransaction'' = Inr st
        \<and> get_prop b ''requestId'' = Inr rid
        \<and> (falsy (string_or_undefined st) \<or> falsy (string_or_undefined rid)) \<longrightarrow>
      statusCode (fst (jupiter_execute rt apiKey req)) = 400
      \<and> snd (jupiter_execute rt apiKey req) = [ReadBody]"
  proof
    assume h: "http_method req = Some ''POST'' \<and> apiKey = Some key \<and> key \<noteq> []
        \<and> readBody rt req = Inr b \<and> get_prop b ''signedTransaction'' = Inr st
        \<and> get_prop b ''requestId'' = Inr rid
        \<and> (falsy (string_or_undefined st) \<or> falsy (string_or_undefined rid))"
    then have "execute_try rt key req =
        (Inr (sendJson 400 [(''error'',
           ''signedTransaction and requestId are required in the Jupiter execute payload.'')]),
         [ReadBody])"
      by (blast intro: execute_try_invalid)
    with h show "statusCode (fst (jupiter_execute rt apiKey req)) = 400
        \<and> snd (jupiter_execute rt apiKey req) = [ReadBody]"
      by (simp add: jupiter_execute_configured catch_500_returns sendJson_def)
  qed
  have g: "vmethod vreq = Some ''GET'' \<and> getApiKey env = Some key \<and> key \<noteq> []
        \<and> p \<in> set requiredParams \<and> is_missing (query vreq p) \<longrightarrow>
      statusCode (fst (vercel_order rt env vreq)) = 400 \<and> snd (vercel_order rt env vreq) = []"
  proof
    assume h: "vmethod vreq = Some ''GET'' \<and> getApiKey env = Some key \<and> key \<noteq> []
        \<and> p \<in> set requiredParams \<and> is_missing (query vreq p)"
    then have "p \<in> set (filter (\<lambda>k. is_missing (query vreq k)) requiredParams)"
      by simp
    then have "filter (\<lambda>k. is_missing (query vreq k)) requiredParams \<noteq> []"
      by (metis empty_iff empty_set)
    with h have "vercel_order rt env vreq =
        (status_json 400 [(''error'', ''Missing required parameter(s): '' @
           join '', '' (filter (\<lambda>k. is_missing (query vreq k)) requiredParams))], [])"
      by (blast intro: vercel_order_missing)
    then show "statusCode (fst (vercel_order rt env vreq)) = 400
        \<and> snd (vercel_order rt env vreq) = []"
      by (simp add: status_json_def)
  qed
  have i: "vmethod vreq = Some ''POST'' \<and> getApiKey env = Some key \<and> key \<noteq> []
        \<and> parseBody rt vreq = Inr b \<and> get_prop b ''signedTransaction'' = Inr st
        \<and> get_prop b ''requestId'' = Inr rid
        \<and> (falsy (string_or_undefined st) \<or> falsy (string_or_undefined rid)) \<longrightarrow>
      statusCode (fst (vercel_execute rt env vreq)) = 400
      \<and> snd (vercel_execute rt env vreq) = [ReadBody]"
  proof
    assume h: "vmethod vreq = Some ''POST'' \<and> getApiKey env = Some key \<and> key \<noteq> []
        \<and> parseBody rt vreq = Inr b \<and> get_prop b ''signedTransaction'' = Inr st
        \<and> get_prop b ''requestId'' = Inr rid
        \<and> (falsy (string_or_undefined st) \<or> falsy (string_or_undefined rid))"
    then have "vercel_execute_try rt key vreq =
        (Inr (status_json 400 [(''error'',
           ''signedTransaction and requestId are required in the execute payload.'')]),
         [ReadBody])"
      by (blast intro: vercel_execute_try_invalid)
    with h show "statusCode (fst (vercel_execute rt env vreq)) = 400
        \<and> snd (vercel_execute rt env vreq) = [ReadBody]"
      by (simp add: vercel_execute_configured catch_json_500_returns status_json_def)
  qed
  from a b c d e f g i show ?thesis
    by (intro conjI)
qed

text \<open>
  C4 at concrete requests: each handler without a key (undefined, or the empty string),
  then each handler with the key \<open>jk\<close> and a request that lacks required fields (for
  the serverless execute handler, the JSON body \<open>{}\<close>).
\<close>

theorem no_upstream_call_on_rejection_witness:
  "(statusCode (fst (jupiter_order sample_rt None order_request_two)) = 500
      \<and> snd (jupiter_order sample_rt None order_request_two) = [])
   \<and> (statusCode (fst (jupiter_execute sample_rt (Some []) empty_post)) = 500
      \<and> snd (jupiter_execute sample_rt (Some []) empty_post) = [])
   \<and> (statusCode (fst (vercel_order sample_rt no_env vercel_order_two)) = 500
      \<and> snd (vercel_order sample_rt no_env vercel_order_two) = [])
   \<and> (statusCode (fst (vercel_execute sample_rt no_env vercel_execute_empty)) = 500
      \<and> snd (vercel_execute sample_rt no_env vercel_execute_empty) = [])
   \<and> (statusCode (fst (jupiter_order sample_rt (Some ''jk'') order_request_two)) = 400
      \<and> snd (jupiter_order sample_rt (Some ''jk'') order_request_two) = [])
   \<and> (statusCode (fst (jupiter_execute sample_rt (Some ''jk'') empty_post)) = 400
      \<and> snd (jupiter_execute sample_rt (Some ''jk'') empty_post) = [ReadBody])
   \<and> (statusCode (fst (vercel_order sample_rt sample_env vercel_order_two)) = 400
      \<and> snd (vercel_order sample_rt sample_env vercel_order_two) = [])
   \<and> (statusCode (fst (vercel_execute sample_rt sample_env vercel_execute_object)) = 400
      \<and> snd (vercel_execute sample_rt sample_env vercel_execute_object) = [ReadBody])"
proof -
  have "statusCode (fst (jupiter_order sample_rt None order_request_two)) = 500
      \<and> snd (jupiter_order sample_rt None order_request_two) = []"
    using no_upstream_call_on_rejection [where req = order_request_two and apiKey = None
        and rt = sample_rt]
    by (simp add: order_request_two_def)
  moreover have "statusCode (fst (jupiter_execute sample_rt (Some []) empty_post)) = 500
      \<and> snd (jupiter_execute sample_rt (Some []) empty_post) = []"
    using no_upstream_call_on_rejection [where req = empty_post and apiKey = "Some []"
        and rt = sample_rt]
    by (simp add: empty_post_def)
  moreover have "statusCode (fst (vercel_order sample_rt no_env vercel_order_two)) = 500
      \<and> snd (vercel_order sample_rt no_env vercel_order_two) = []"
    using no_upstream_call_on_rejection [where vreq = vercel_order_two and env = no_env
        and rt = sample_rt]
    by (simp add: vercel_order_two_def sample_defs)
  moreover have "statusCode (fst (vercel_execute sample_rt no_env vercel_execute_empty)) = 500
      \<and> snd (vercel_execute sample_rt no_env vercel_execute_empty) = []"
    using no_upstream_call_on_rejection [where vreq = vercel_execute_empty and env = no_env
        and rt = sample_rt]
    by (simp add: vercel_execute_empty_def sample_defs)
  moreover have "statusCode (fst (jupiter_order sample_rt (Some ''jk'') order_request_two)) = 400
      \<and> snd (jupiter_order sample_rt (Some ''jk'') order_request_two) = []"
    using no_upstream_call_on_rejection [where req = order_request_two
        and apiKey = "Some ''jk''" and key = "''jk''" and rt = sample_rt
        and u = "\<lparr>search = ''?inputMint=So11&outputMint=EPjF'',
                   searchParams = [(''inputMint'', ''So11''), (''outputMint'', ''EPjF'')]\<rparr>"
        and p = "''taker''"]
    by (simp add: order_request_two_def sample_defs searchParams_get_def requiredParams_def)
  moreover have "statusCode (fst (jupiter_execute sample_rt (Some ''jk'') empty_post)) = 400
      \<and> snd (jupiter_execute sample_rt (Some ''jk'') empty_post) = [ReadBody]"
    using no_upstream_call_on_rejection [where req = empty_post
        and apiKey = "Some ''jk''" and key = "''jk''" and rt = sample_rt
        and b = "JObj []" and st = None and rid = None]
    by (simp add: empty_post_def readBody_def)
  moreover have "statusCode (fst (vercel_order sample_rt sample_env vercel_order_two)) = 400
      \<and> snd (vercel_order sample_rt sample_env vercel_order_two) = []"
    using no_upstream_call_on_rejection [where vreq = vercel_order_two and env = sample_env
        and key = "''jk''" and rt = sample_rt and p = "''amount''"]
    by (simp add: vercel_order_two_def sample_defs requiredParams_def)
  moreover have "statusCode (fst (vercel_execute sample_rt sample_env vercel_execute_object)) = 400
      \<and> snd (vercel_execute sample_rt sample_env vercel_execute_object) = [ReadBody]"
    using no_upstream_call_on_rejection [where vreq = vercel_execute_object and env = sample_env
        and key = "''jk''" and rt = sample_rt and b = "JObj []" and st = None and rid = None]
    by (simp add: vercel_execute_object_def sample_defs parseBody_def)
  ultimately show ?thesis
    by blast
qed

text \<open>
  C5, as the code has it. Let one of the four proxy handlers have called upstream and
  received a response. If its body is read to the end, with the bytes \<open>bytes\<close>, the
  handler hands to the response object the upstream status (2xx or not), the upstream
  content type, or \<open>application/json\<close> when there is none, as the \<open>Content-Type\<close>
  header, and as body the text \<open>b\<close> that \<open>Response.text()\<close> decodes from \<open>bytes\<close>, or
  \<open>{}\<close> when \<open>b\<close> is empty. If reading the body fails, the handler answers 500 with
  the message of the failure.
\<close>

theorem upstream_response_relayed:
  assumes "fetch rt r = Inr upstream"
  shows "(body_bytes upstream = Inr bytes \<and> b = utf8_decode rt bytes \<longrightarrow>
            (Fetch r \<in> set (snd (jupiter_order rt apiKey req)) \<longrightarrow>
               fst (jupiter_order rt apiKey req) = relay_spec upstream b)
          \<and> (Fetch r \<in> set (snd (jupiter_execute rt apiKey req)) \<longrightarrow>
               fst (jupiter_execute rt apiKey req) = relay_spec upstream b)
          \<and> (Fetch r \<in> set (snd (vercel_order rt env vreq)) \<longrightarrow>
               fst (vercel_order rt env vreq) = relay_spec upstream b)
          \<and> (Fetch r \<in> set (snd (vercel_execute rt env vreq)) \<longrightarrow>
               fst (vercel_execute rt env vreq) = relay_spec upstream b))
       \<and> (body_bytes upstream = Inl e \<longrightarrow>
            (Fetch r \<in> set (snd (jupiter_order rt apiKey req)) \<longrightarrow>
               fst (jupiter_order rt apiKey req) =
                 sendJson 500 [(''error'', message_of e ''Jupiter order request failed.'')])
          \<and> (Fetch r \<in> set (snd (jupiter_execute rt apiKey req)) \<longrightarrow>
               fst (jupiter_execute rt apiKey req) =
                 sendJson 500 [(''error'', message_of e ''Jupiter execute request failed.'')])
          \<and> (Fetch r \<in> set (snd (vercel_order rt env vreq)) \<longrightarrow>
               fst (vercel_order rt env vreq) =
                 status_json 500 [(''error'', message_of e ''Jupiter order request failed.'')])
          \<and> (Fetch r \<in> set (snd (vercel_execute rt env vreq)) \<longrightarrow>
               fst (vercel_execute rt env vreq) =
                 status_json 500 [(''error'', message_of e ''Jupiter execute request failed.'')]))"
proof (intro conjI impI)
  assume "body_bytes upstream = Inr bytes \<and> b = utf8_decode rt bytes"
  then have t: "Response_text rt upstream = Inr b"
    by (simp add: Response_text_def)
  {
    assume "Fetch r \<in> set (snd (jupiter_order rt apiKey req))"
    then show "fst (jupiter_order rt apiKey req) = relay_spec upstream b"
      using assms t by (rule jupiter_order_relays)
  next
    assume "Fetch r \<in> set (snd (jupiter_execute rt apiKey req))"
    then show "fst (jupiter_execute rt apiKey req) = relay_spec upstream b"
      using assms t by (rule jupiter_execute_relays)
  next
    assume "Fetch r \<in> set (snd (vercel_order rt env vreq))"
    then show "fst (vercel_order rt env vreq) = relay_spec upstream b"
      using assms t by (rule vercel_order_relays)
  next
    assume "Fetch r \<in> set (snd (vercel_execute rt env vreq))"
    then show "fst (vercel_execute rt env vreq) = relay_spec upstream b"
      using assms t by (rule vercel_execute_relays)
  }
next
  assume f: "body_bytes upstream = Inl e"
  {
    assume "Fetch r \<in> set (snd (jupiter_order rt apiKey req))"
    then show "fst (jupiter_order rt apiKey req) =
        sendJson 500 [(''error'', message_of e ''Jupiter order request failed.'')]"
      using assms f by (rule jupiter_order_read_fails)
  next
    assume "Fetch r \<in> set (snd (jupiter_execute rt apiKey req))"
    then show "fst (jupiter_execute rt apiKey req) =
        sendJson 500 [(''error'', message_of e ''Jupiter execute request failed.'')]"
      using assms f by (rule jupiter_execute_read_fails)
  next
    assume "Fetch r \<in> set (snd (vercel_order rt env vreq))"
    then show "fst (vercel_order rt env vreq) =
        status_json 500 [(''error'', message_of e ''Jupiter order request failed.'')]"
      using assms f by (rule vercel_order_read_fails)
  next
    assume "Fetch r \<in> set (snd (vercel_execute rt env vreq))"
    then show "fst (vercel_execute rt env vreq) =
        status_json 500 [(''error'', message_of e ''Jupiter execute request failed.'')]"
      using assms f by (rule vercel_execute_read_fails)
  }
qed

text \<open>
  C5 at concrete requests: the sample upstream answers an order with a 200 and a quote,
  and an execute with an empty 502 without a content type; the broken upstream answers
  502 and its body cannot be read.
\<close>

theorem upstream_response_relayed_witness:
  \<open>fst (jupiter_order sample_rt (Some ''jk'') order_request_full) =
     \<lparr>statusCode = 200, headers = [(''Content-Type'', ''application/json; charset=utf-8'')],
      body = ''{"requestId":"r-1","transaction":"AQID"}''\<rparr>
   \<and> fst (jupiter_execute sample_rt (Some ''jk'') execute_request) =
     \<lparr>statusCode = 502, headers = [(''Content-Type'', ''application/json'')], body = ''{}''\<rparr>
   \<and> fst (vercel_order sample_rt sample_env vercel_order_full) =
     \<lparr>statusCode = 200, headers = [(''Content-Type'', ''application/json; charset=utf-8'')],
      body = ''{"requestId":"r-1","transaction":"AQID"}''\<rparr>
   \<and> fst (vercel_execute sample_rt sample_env vercel_execute_request) =
     \<lparr>statusCode = 502, headers = [(''Content-Type'', ''application/json'')], body = ''{}''\<rparr>
   \<and> fst (jupiter_order broken_rt (Some ''jk'') order_request_full) =
     sendJson 500 [(''error'', ''terminated'')]\<close>
proof -
  let ?order = "\<lparr>target = ''https://api.jup.ag/ultra/v1/order'' @
               ''?taker=Tk1&amount=1000&outputMint=EPjF&inputMint=So11'',
             fetch_method = Some ''GET'', fetch_headers = [(''x-api-key'', ''jk'')],
             fetch_body = None\<rparr>"
  let ?vorder = "\<lparr>target = ''https://api.jup.ag/ultra/v1/order'' @
               ''?inputMint=So11&outputMint=EPjF&amount=1000&taker=Tk1'',
             fetch_method = None, fetch_headers = [(''x-api-key'', ''jk'')],
             fetch_body = None\<rparr>"
  let ?execute = \<open>\<lparr>target = ''https://api.jup.ag/ultra/v1/execute'', fetch_method = Some ''POST'',
             fetch_headers = [(''x-api-key'', ''jk''), (''Content-Type'', ''application/json'')],
             fetch_body = Some ''{"signedTransaction":"AQID","requestId":"r-1"}''\<rparr>\<close>
  let ?text = \<open>''{"requestId":"r-1","transaction":"AQID"}''\<close>
  let ?quote = "\<lparr>status = 200, content_type = Some ''application/json; charset=utf-8'',
             body_bytes = Inr ?text\<rparr>"
  let ?bad = "\<lparr>status = 502, content_type = None, body_bytes = Inr []\<rparr>"
  let ?broken = "\<lparr>status = 502, content_type = Some ''text/html'',
             body_bytes = Inl (ErrorObj ''terminated'')\<rparr>"
  have fo: "fetch sample_rt ?order = Inr ?quote" and fv: "fetch sample_rt ?vorder = Inr ?quote"
    by (simp_all add: sample_rt_def sample_fetch_def)
  have fe: "fetch sample_rt ?execute = Inr ?bad"
    by (rule sample_execute_target)
  have fb: "fetch broken_rt ?order = Inr ?broken"
    by (simp add: broken_rt_def)
  have tq: "body_bytes ?quote = Inr ?text \<and> ?text = utf8_decode sample_rt ?text"
    and tb: "body_bytes ?bad = Inr [] \<and> [] = utf8_decode sample_rt []"
    by (simp_all add: sample_rt_def sample_utf8_decode_def byte_order_mark_def)
  have o: "Fetch ?order \<in> set (snd (jupiter_order sample_rt (Some ''jk'') order_request_full))"
    by (simp add: sample_order_effects)
  have v: "Fetch ?vorder \<in> set (snd (vercel_order sample_rt sample_env vercel_order_full))"
    by (simp add: sample_vercel_order_effects)
  have e: "Fetch ?execute \<in> set (snd (jupiter_execute sample_rt (Some ''jk'') execute_request))"
    by (simp add: sample_execute_effects)
  have x: "Fetch ?execute \<in> set (snd (vercel_execute sample_rt sample_env vercel_execute_request))"
    by (simp add: sample_vercel_execute_effects)
  have bo: "Fetch ?order \<in> set (snd (jupiter_order broken_rt (Some ''jk'') order_request_full))"
    by (simp add: broken_order_effects)
  from upstream_response_relayed [OF fo, THEN conjunct1, rule_format, OF tq] o
  have "fst (jupiter_order sample_rt (Some ''jk'') order_request_full) = relay_spec ?quote ?text"
    by blast
  moreover from upstream_response_relayed [OF fe, THEN conjunct1, rule_format, OF tb] e
  have "fst (jupiter_execute sample_rt (Some ''jk'') execute_request) = relay_spec ?bad []"
    by blast
  moreover from upstream_response_relayed [OF fv, THEN conjunct1, rule_format, OF tq] v
  have "fst (vercel_order sample_rt sample_env vercel_order_full) = relay_spec ?quote ?text"
    by blast
  moreover from upstream_response_relayed [OF fe, THEN conjunct1, rule_format, OF tb] x
  have "fst (vercel_execute sample_rt sample_env vercel_execute_request) = relay_spec ?bad []"
    by blast
  moreover from upstream_response_relayed [OF fb, THEN conjunct2, rule_format,
      where e = "ErrorObj ''terminated''"] bo
  have "fst (jupiter_order broken_rt (Some ''jk'') order_request_full) =
      sendJson 500 [(''error'', ''terminated'')]"
    by simp
  ultimately show ?thesis
    by (simp add: relay_spec_def)
qed

text \<open>
  C5 as stated fails: a received 502 whose body cannot be read is answered with 500 and
  the message of the failure, not with 502; and a body that begins with a byte order
  mark is passed on without it, not byte for byte.
\<close>

theorem upstream_response_relayed_counterexample:
  \<open>fetch broken_rt
       \<lparr>target = ''https://api.jup.ag/ultra/v1/order'' @
          ''?taker=Tk1&amount=1000&outputMint=EPjF&inputMint=So11'',
        fetch_method = Some ''GET'', fetch_headers = [(''x-api-key'', ''jk'')],
        fetch_body = None\<rparr> =
     Inr \<lparr>status = 502, content_type = Some ''text/html'',
          body_bytes = Inl (ErrorObj ''terminated'')\<rparr>
   \<and> jupiter_order broken_rt (Some ''jk'') order_request_full =
     (\<lparr>statusCode = 500, headers = [(''Content-Type'', ''application/json'')],
       body = ''{"error":"terminated"}''\<rparr>,
      [Fetch \<lparr>target = ''https://api.jup.ag/ultra/v1/order'' @
          ''?taker=Tk1&amount=1000&outputMint=EPjF&inputMint=So11'',
        fetch_method = Some ''GET'', fetch_headers = [(''x-api-key'', ''jk'')],
        fetch_body = None\<rparr>])
   \<and> fetch bom_rt
       \<lparr>target = ''https://api.jup.ag/ultra/v1/order'' @
          ''?taker=Tk1&amount=1000&outputMint=EPjF&inputMint=So11'',
        fetch_method = Some ''GET'', fetch_headers = [(''x-api-key'', ''jk'')],
        fetch_body = None\<rparr> =
     Inr \<lparr>status = 200, content_type = Some ''application/json'',
          body_bytes = Inr ([CHR 0xEF, CHR 0xBB, CHR 0xBF] @ ''{"ok":true}'')\<rparr>
   \<and> jupiter_order bom_rt (Some ''jk'') order_request_full =
     (\<lparr>statusCode = 200, headers = [(''Content-Type'', ''application/json'')],
       body = ''{"ok":true}''\<rparr>,
      [Fetch \<lparr>target = ''https://api.jup.ag/ultra/v1/order'' @
          ''?taker=Tk1&amount=1000&outputMint=EPjF&inputMint=So11'',
        fetch_method = Some ''GET'', fetch_headers = [(''x-api-key'', ''jk'')],
        fetch_body = None\<rparr>])\<close>
  by (simp add: jupiter_order_def ensureApiKey_def order_try_def catch_500_def
      fetch_and_forward_def forwardJupiterResponse_def Response_text_def order_request_full_def
      broken_rt_def bom_rt_def sample_rt_def sample_new_URL_def sample_utf8_decode_def
      byte_order_mark_def searchParams_get_def requiredParams_def sendJson_def stringify_defs
      JUPITER_ULTRA_BASE_URL_def)

text \<open>
  C6. On each of the five handlers a request whose method is not the accepted one (POST
  for the signing endpoint and the execute proxies, GET for the order proxies) is
  answered with status 405, the single header \<open>Allow\<close> naming the accepted method and
  an empty body; the body is not read, nothing is validated and no upstream call is
  made, whatever the runtime, the configuration and the rest of the request are.
\<close>

theorem wrong_method_405:
  "(http_method req \<noteq> Some ''POST'' \<longrightarrow>
      registerMoonPaySignatureEndpoint rt secret req =
        (\<lparr>statusCode = 405, headers = [(''Allow'', ''POST'')], body = []\<rparr>, []))
   \<and> (http_method req \<noteq> Some ''GET'' \<longrightarrow>
      jupiter_order rt apiKey req =
        (\<lparr>statusCode = 405, headers = [(''Allow'', ''GET'')], body = []\<rparr>, []))
   \<and> (http_method req \<noteq> Some ''POST'' \<longrightarrow>
      jupiter_execute rt apiKey req =
        (\<lparr>statusCode = 405, headers = [(''Allow'', ''POST'')], body = []\<rparr>, []))
   \<and> (vmethod vreq \<noteq> Some ''GET'' \<longrightarrow>
      vercel_order rt env vreq =
        (\<lparr>statusCode = 405, headers = [(''Allow'', ''GET'')], body = []\<rparr>, []))
   \<and> (vmethod vreq \<noteq> Some ''POST'' \<longrightarrow>
      vercel_execute rt env vreq =
        (\<lparr>statusCode = 405, headers = [(''Allow'', ''POST'')], body = []\<rparr>, []))"
  by (simp add: registerMoonPaySignatureEndpoint_def jupiter_order_def jupiter_execute_def
      vercel_order_def vercel_execute_def method_not_allowed_def)

text \<open>
  C6 at a PUT request.
\<close>

theorem wrong_method_405_witness:
  "registerMoonPaySignatureEndpoint sample_rt (Some ''k'') put_request =
     (\<lparr>statusCode = 405, headers = [(''Allow'', ''POST'')], body = []\<rparr>, [])
   \<and> jupiter_order sample_rt (Some ''jk'') put_request =
     (\<lparr>statusCode = 405, headers = [(''Allow'', ''GET'')], body = []\<rparr>, [])
   \<and> jupiter_execute sample_rt (Some ''jk'') put_request =
     (\<lparr>statusCode = 405, headers = [(''Allow'', ''POST'')], body = []\<rparr>, [])
   \<and> vercel_order sample_rt sample_env vercel_put_request =
     (\<lparr>statusCode = 405, headers = [(''Allow'', ''GET'')], body = []\<rparr>, [])
   \<and> vercel_execute sample_rt sample_env vercel_put_request =
     (\<lparr>statusCode = 405, headers = [(''Allow'', ''POST'')], body = []\<rparr>, [])"
proof -
  have "http_method put_request \<noteq> Some ''POST''" "http_method put_request \<noteq> Some ''GET''"
    "vmethod vercel_put_request \<noteq> Some ''GET''" "vmethod vercel_put_request \<noteq> Some ''POST''"
    by (simp_all add: put_request_def vercel_put_request_def)
  with wrong_method_405 [of put_request sample_rt "Some ''k''" "Some ''jk''"
      vercel_put_request sample_env]
  show ?thesis by blast
qed

text \<open>
  The upstream call of a valid order request, on each of the two order handlers.
\<close>

lemma order_fetches:
  assumes "key \<noteq> []"
  shows "(http_method req = Some ''GET''
            \<and> new_URL rt (case url req of None \<Rightarrow> [] | Some s \<Rightarrow> s) (Some ''http://localhost'') = Inr u
            \<and> (\<forall>p \<in> set requiredParams. \<not> falsy (searchParams_get u p)) \<longrightarrow>
            snd (jupiter_order rt (Some key) req) =
              [Fetch \<lparr>target = JUPITER_ULTRA_BASE_URL @ ''/order'' @ search u,
                      fetch_method = Some ''GET'',
                      fetch_headers = [(''x-api-key'', key)],
                      fetch_body = None\<rparr>])
       \<and> (vmethod vreq = Some ''GET'' \<and> getApiKey env = Some key
            \<and> (\<forall>p \<in> set requiredParams. \<not> is_missing (query vreq p)) \<longrightarrow>
            snd (vercel_order rt env vreq) =
              [Fetch \<lparr>target = JUPITER_ULTRA_BASE_URL @ ''/order?'' @
                        URLSearchParams_toString
                          [(''inputMint'', String_of (query vreq ''inputMint'')),
                           (''outputMint'', String_of (query vreq ''outputMint'')),
                           (''amount'', String_of (query vreq ''amount'')),
                           (''taker'', String_of (query vreq ''taker''))],
                      fetch_method = None,
                      fetch_headers = [(''x-api-key'', key)],
                      fetch_body = None\<rparr>])"
proof (intro conjI impI)
  assume h: "http_method req = Some ''GET''
      \<and> new_URL rt (case url req of None \<Rightarrow> [] | Some s \<Rightarrow> s) (Some ''http://localhost'') = Inr u
      \<and> (\<forall>p \<in> set requiredParams. \<not> falsy (searchParams_get u p))"
  then have "first_missing u requiredParams = None"
    by (simp add: first_missing_None)
  with h have "order_try rt key req =
      fetch_and_forward rt
        \<lparr>target = JUPITER_ULTRA_BASE_URL @ ''/order'' @ search u,
         fetch_method = Some ''GET'',
         fetch_headers = [(''x-api-key'', key)],
         fetch_body = None\<rparr>"
    by (blast intro: order_try_forwards)
  with h assms show "snd (jupiter_order rt (Some key) req) =
      [Fetch \<lparr>target = JUPITER_ULTRA_BASE_URL @ ''/order'' @ search u,
              fetch_method = Some ''GET'',
              fetch_headers = [(''x-api-key'', key)],
              fetch_body = None\<rparr>]"
    by (simp add: jupiter_order_configured snd_catch_500 fetch_and_forward_eq)
next
  assume h: "vmethod vreq = Some ''GET'' \<and> getApiKey env = Some key
      \<and> (\<forall>p \<in> set requiredParams. \<not> is_missing (query vreq p))"
  then have "filter (\<lambda>k. is_missing (query vreq k)) requiredParams = []"
    by (simp add: filter_empty_conv)
  with h assms have "vercel_order rt env vreq =
     catch_json_500 ''Jupiter order request failed.''
       (fetch_and_forwardResponse rt
          \<lparr>target = JUPITER_ULTRA_BASE_URL @ ''/order?'' @
             URLSearchParams_toString
               [(''inputMint'', String_of (query vreq ''inputMint'')),
                (''outputMint'', String_of (query vreq ''outputMint'')),
                (''amount'', String_of (query vreq ''amount'')),
                (''taker'', String_of (query vreq ''taker''))],
           fetch_method = None,
           fetch_headers = [(''x-api-key'', key)],
           fetch_body = None\<rparr>)"
    by (blast intro: vercel_order_forwards)
  then show "snd (vercel_order rt env vreq) =
      [Fetch \<lparr>target = JUPITER_ULTRA_BASE_URL @ ''/order?'' @
                URLSearchParams_toString
                  [(''inputMint'', String_of (query vreq ''inputMint'')),
                   (''outputMint'', String_of (query vreq ''outputMint'')),
                   (''amount'', String_of (query vreq ''amount'')),
                   (''taker'', String_of (query vreq ''taker''))],
              fetch_method = None,
              fetch_headers = [(''x-api-key'', key)],
              fetch_body = None\<rparr>]"
    by (simp add: snd_catch_json_500 fetch_and_forwardResponse_eq)
qed

text \<open>
  C7, as the code has it. For a valid GET with the API key configured, the order
  middleware makes one upstream call: a GET to the base URL followed by \<open>/order\<close> and
  the \<open>search\<close> component of the parsed request url, with the key as the value of
  the \<open>x-api-key\<close> header and nowhere else. The serverless order handler makes one
  upstream call as well, a GET (no method is given) with the key in that header, but
  its query string is written anew from the four required parameters, in the order
  inputMint, outputMint, amount, taker: other parameters are dropped and arrays joined
  with commas.
\<close>

theorem order_upstream_request:
  assumes "key \<noteq> []"
  shows "(http_method req = Some ''GET''
            \<and> new_URL rt (case url req of None \<Rightarrow> [] | Some s \<Rightarrow> s) (Some ''http://localhost'') = Inr u
            \<and> (\<forall>p \<in> set requiredParams. \<not> falsy (searchParams_get u p)) \<longrightarrow>
            (let r = \<lparr>target = JUPITER_ULTRA_BASE_URL @ ''/order'' @ search u,
                      fetch_method = Some ''GET'',
                      fetch_headers = [(''x-api-key'', key)],
                      fetch_body = None\<rparr>
             in snd (jupiter_order rt (Some key) req) = [Fetch r] \<and> effective_method r = ''GET''))
       \<and> (vmethod vreq = Some ''GET'' \<and> getApiKey env = Some key
            \<and> (\<forall>p \<in> set requiredParams. \<not> is_missing (query vreq p)) \<longrightarrow>
            (let r = \<lparr>target = JUPITER_ULTRA_BASE_URL @ ''/order?'' @
                        URLSearchParams_toString
                          [(''inputMint'', String_of (query vreq ''inputMint'')),
                           (''outputMint'', String_of (query vreq ''outputMint'')),
                           (''amount'', String_of (query vreq ''amount'')),
                           (''taker'', String_of (query vreq ''taker''))],
                      fetch_method = None,
                      fetch_headers = [(''x-api-key'', key)],
                      fetch_body = None\<rparr>
             in snd (vercel_order rt env vreq) = [Fetch r] \<and> effective_method r = ''GET''))"
  using order_fetches [OF assms, of req rt u vreq env]
  by (simp add: Let_def effective_method_def)

text \<open>
  C7 at a valid request whose parameters come in the order taker, amount, outputMint,
  inputMint.
\<close>

theorem order_upstream_request_witness:
  "snd (jupiter_order sample_rt (Some ''jk'') order_request_full) =
     [Fetch \<lparr>target = ''https://api.jup.ag/ultra/v1/order'' @
               ''?taker=Tk1&amount=1000&outputMint=EPjF&inputMint=So11'',
             fetch_method = Some ''GET'', fetch_headers = [(''x-api-key'', ''jk'')],
             fetch_body = None\<rparr>]
   \<and> snd (vercel_order sample_rt sample_env vercel_order_full) =
     [Fetch \<lparr>target = ''https://api.jup.ag/ultra/v1/order'' @
               ''?inputMint=So11&outputMint=EPjF&amount=1000&taker=Tk1'',
             fetch_method = None, fetch_headers = [(''x-api-key'', ''jk'')],
             fetch_body = None\<rparr>]"
  using order_upstream_request [where key = "''jk''" and req = order_request_full
      and rt = sample_rt
      and u = "\<lparr>search = ''?taker=Tk1&amount=1000&outputMint=EPjF&inputMint=So11'',
                 searchParams = [(''taker'', ''Tk1''), (''amount'', ''1000''),
                                 (''outputMint'', ''EPjF''), (''inputMint'', ''So11'')]\<rparr>"
      and vreq = vercel_order_full and env = sample_env]
    urlencode_sample
  by (simp add: order_request_full_def vercel_order_full_def sample_defs searchParams_get_def
      requiredParams_def JUPITER_ULTRA_BASE_URL_def Let_def)

text \<open>
  C7 as stated fails on the serverless handler: the query string of the request reads
  taker, amount, outputMint, inputMint, and the one sent upstream reads inputMint,
  outputMint, amount, taker.
\<close>

theorem order_upstream_request_counterexample:
  "vurl vercel_order_full =
     Some (''/api/jupiter/order'' @ ''?taker=Tk1&amount=1000&outputMint=EPjF&inputMint=So11'')
   \<and> snd (vercel_order sample_rt sample_env vercel_order_full) =
       [Fetch \<lparr>target = ''https://api.jup.ag/ultra/v1/order'' @
                 ''?inputMint=So11&outputMint=EPjF&amount=1000&taker=Tk1'',
               fetch_method = None, fetch_headers = [(''x-api-key'', ''jk'')],
               fetch_body = None\<rparr>]
   \<and> ''?inputMint=So11&outputMint=EPjF&amount=1000&taker=Tk1'' \<noteq>
       ''?taker=Tk1&amount=1000&outputMint=EPjF&inputMint=So11''"
  by (simp add: vercel_order_def vercel_order_full_def sample_env_def getApiKey_def
      snd_catch_json_500 fetch_and_forwardResponse_eq urlencode_sample
      JUPITER_ULTRA_BASE_URL_def)

text \<open>
  C8, as the code has it. With the API key configured, a POST to an execute handler is
  answered after the body has been read. If reading or parsing the body throws, or the
  body read is \<open>null\<close>, whose property read throws, the answer is 500 with the message
  of what was thrown. Any other body has the two properties read; if it lacks a
  non-empty string \<open>signedTransaction\<close> or a non-empty string \<open>requestId\<close>, the answer
  is 400 without an upstream call: by the middleware with the message
  \<open>signedTransaction and requestId are required in the Jupiter execute payload.\<close>, by
  the serverless handler with \<open>signedTransaction and requestId are required in the
  execute payload.\<close> Otherwise either handler makes one upstream call, a POST to the base
  URL followed by \<open>/execute\<close>, with the key in the \<open>x-api-key\<close> header and a JSON body
  of exactly the two fields as read. An empty body is read by the middleware as the
  empty object, hence 400; the serverless handler reads an undefined \<open>req.body\<close> as the
  empty object, hence 400, but parses a string, so that the empty string of a POST
  without a body is answered with 500 and the parser's message.
\<close>

theorem execute_validation_and_upstream_request:
  assumes "key \<noteq> []"
  shows "(http_method req = Some ''POST'' \<longrightarrow>
            (readBody rt req = Inl e \<longrightarrow>
               jupiter_execute rt (Some key) req =
                 (sendJson 500 [(''error'', message_of e ''Jupiter execute request failed.'')],
                  [ReadBody]))
          \<and> (readBody rt req = Inr JNull \<longrightarrow>
               jupiter_execute rt (Some key) req =
                 (sendJson 500 [(''error'', ''Cannot read properties of null (reading ''
                    @ [CHR 0x27] @ ''signedTransaction'' @ [CHR 0x27] @ '')'')], [ReadBody]))
          \<and> (readBody rt req = Inr b
               \<and> get_prop b ''signedTransaction'' = Inr st \<and> get_prop b ''requestId'' = Inr rid
               \<and> (falsy (string_or_undefined st) \<or> falsy (string_or_undefined rid)) \<longrightarrow>
               jupiter_execute rt (Some key) req =
                 (sendJson 400 [(''error'',
                    ''signedTransaction and requestId are required in the Jupiter execute payload.'')],
                  [ReadBody]))
          \<and> (readBody rt req = Inr b
               \<and> get_prop b ''signedTransaction'' = Inr (Some (JStr s))
               \<and> get_prop b ''requestId'' = Inr (Some (JStr r)) \<and> s \<noteq> [] \<and> r \<noteq> [] \<longrightarrow>
               snd (jupiter_execute rt (Some key) req) =
                 [ReadBody,
                  Fetch \<lparr>target = JUPITER_ULTRA_BASE_URL @ ''/execute'',
                         fetch_method = Some ''POST'',
                         fetch_headers = [(''x-api-key'', key), (''Content-Type'', ''application/json'')],
                         fetch_body = Some (JSON_stringify
                           [(''signedTransaction'', s), (''requestId'', r)])\<rparr>])
          \<and> (body_stream req = Inr chunks \<and> concat (map (Buffer_toString rt) chunks) = [] \<longrightarrow>
               jupiter_execute rt (Some key) req =
                 (sendJson 400 [(''error'',
                    ''signedTransaction and requestId are required in the Jupiter execute payload.'')],
                  [ReadBody])))
       \<and> (vmethod vreq = Some ''POST'' \<and> getApiKey env = Some key \<longrightarrow>
            (parseBody rt vreq = Inl e \<longrightarrow>
               vercel_execute rt env vreq =
                 (status_json 500 [(''error'', message_of e ''Jupiter execute request failed.'')],
                  [ReadBody]))
          \<and> (parseBody rt vreq = Inr JNull \<longrightarrow>
               vercel_execute rt env vreq =
                 (status_json 500 [(''error'', ''Cannot read properties of null (reading ''
                    @ [CHR 0x27] @ ''signedTransaction'' @ [CHR 0x27] @ '')'')], [ReadBody]))
          \<and> (parseBody rt vreq = Inr b
               \<and> get_prop b ''signedTransaction'' = Inr st \<and> get_prop b ''requestId'' = Inr rid
               \<and> (falsy (string_or_undefined st) \<or> falsy (string_or_undefined rid)) \<longrightarrow>
               vercel_execute rt env vreq =
                 (status_json 400 [(''error'',
                    ''signedTransaction and requestId are required in the execute payload.'')],
                  [ReadBody]))
          \<and> (parseBody rt vreq = Inr b
               \<and> get_prop b ''signedTransaction'' = Inr (Some (JStr s))
               \<and> get_prop b ''requestId'' = Inr (Some (JStr r)) \<and> s \<noteq> [] \<and> r \<noteq> [] \<longrightarrow>
               snd (vercel_execute rt env vreq) =
                 [ReadBody,
                  Fetch \<lparr>target = JUPITER_ULTRA_BASE_URL @ ''/execute'',
                         fetch_method = Some ''POST'',
                         fetch_headers = [(''x-api-key'', key), (''Content-Type'', ''application/json'')],
                         fetch_body = Some (JSON_stringify
                           [(''signedTransaction'', s), (''requestId'', r)])\<rparr>])
          \<and> (vbody vreq = Inr (Some (JStr t)) \<and> JSON_parse rt t = Inl m \<longrightarrow>
               vercel_execute rt env vreq = (status_json 500 [(''error'', m)], [ReadBody]))
          \<and> (vbody vreq = Inr None \<longrightarrow>
               vercel_execute rt env vreq =
                 (status_json 400 [(''error'',
                    ''signedTransaction and requestId are required in the execute payload.'')],
                  [ReadBody])))
       \<and> (b \<noteq> JNull \<longrightarrow>
            (\<exists>st rid. get_prop b ''signedTransaction'' = Inr st
               \<and> get_prop b ''requestId'' = Inr rid))"
proof (intro conjI)
  show "http_method req = Some ''POST'' \<longrightarrow>
      (readBody rt req = Inl e \<longrightarrow>
         jupiter_execute rt (Some key) req =
           (sendJson 500 [(''error'', message_of e ''Jupiter execute request failed.'')],
            [ReadBody]))
    \<and> (readBody rt req = Inr JNull \<longrightarrow>
         jupiter_execute rt (Some key) req =
           (sendJson 500 [(''error'', ''Cannot read properties of null (reading ''
              @ [CHR 0x27] @ ''signedTransaction'' @ [CHR 0x27] @ '')'')], [ReadBody]))
    \<and> (readBody rt req = Inr b
         \<and> get_prop b ''signedTransaction'' = Inr st \<and> get_prop b ''requestId'' = Inr rid
         \<and> (falsy (string_or_undefined st) \<or> falsy (string_or_undefined rid)) \<longrightarrow>
         jupiter_execute rt (Some key) req =
           (sendJson 400 [(''error'',
              ''signedTransaction and requestId are required in the Jupiter execute payload.'')],
            [ReadBody]))
    \<and> (readBody rt req = Inr b
         \<and> get_prop b ''signedTransaction'' = Inr (Some (JStr s))
         \<and> get_prop b ''requestId'' = Inr (Some (JStr r)) \<and> s \<noteq> [] \<and> r \<noteq> [] \<longrightarrow>
         snd (jupiter_execute rt (Some key) req) =
           [ReadBody,
            Fetch \<lparr>target = JUPITER_ULTRA_BASE_URL @ ''/execute'',
                   fetch_method = Some ''POST'',
                   fetch_headers = [(''x-api-key'', key), (''Content-Type'', ''application/json'')],
                   fetch_body = Some (JSON_stringify
                     [(''signedTransaction'', s), (''requestId'', r)])\<rparr>])
    \<and> (body_stream req = Inr chunks \<and> concat (map (Buffer_toString rt) chunks) = [] \<longrightarrow>
         jupiter_execute rt (Some key) req =
           (sendJson 400 [(''error'',
              ''signedTransaction and requestId are required in the Jupiter execute payload.'')],
            [ReadBody]))"
    using jupiter_execute_branches [OF assms] by (rule impI)
next
  show "vmethod vreq = Some ''POST'' \<and> getApiKey env = Some key \<longrightarrow>
      (parseBody rt vreq = Inl e \<longrightarrow>
         vercel_execute rt env vreq =
           (status_json 500 [(''error'', message_of e ''Jupiter execute request failed.'')],
            [ReadBody]))
    \<and> (parseBody rt vreq = Inr JNull \<longrightarrow>
         vercel_execute rt env vreq =
           (status_json 500 [(''error'', ''Cannot read properties of null (reading ''
              @ [CHR 0x27] @ ''signedTransaction'' @ [CHR 0x27] @ '')'')], [ReadBody]))
    \<and> (parseBody rt vreq = Inr b
         \<and> get_prop b ''signedTransaction'' = Inr st \<and> get_prop b ''requestId'' = Inr rid
         \<and> (falsy (string_or_undefined st) \<or> falsy (string_or_undefined rid)) \<longrightarrow>
         vercel_execute rt env vreq =
           (status_json 400 [(''error'',
              ''signedTransaction and requestId are required in the execute payload.'')],
            [ReadBody]))
    \<and> (parseBody rt vreq = Inr b
         \<and> get_prop b ''signedTransaction'' = Inr (Some (JStr s))
         \<and> get_prop b ''requestId'' = Inr (Some (JStr r)) \<and> s \<noteq> [] \<and> r \<noteq> [] \<longrightarrow>
         snd (vercel_execute rt env vreq) =
           [ReadBody,
            Fetch \<lparr>target = JUPITER_ULTRA_BASE_URL @ ''/execute'',
                   fetch_method = Some ''POST'',
                   fetch_headers = [(''x-api-key'', key), (''Content-Type'', ''application/json'')],
                   fetch_body = Some (JSON_stringify
                     [(''signedTransaction'', s), (''requestId'', r)])\<rparr>])
    \<and> (vbody vreq = Inr (Some (JStr t)) \<and> JSON_parse rt t = Inl m \<longrightarrow>
         vercel_execute rt env vreq = (status_json 500 [(''error'', m)], [ReadBody]))
    \<and> (vbody vreq = Inr None \<longrightarrow>
         vercel_execute rt env vreq =
           (status_json 400 [(''error'',
              ''signedTransaction and requestId are required in the execute payload.'')],
            [ReadBody]))"
    using vercel_execute_branches [OF assms] by blast
next
  show "b \<noteq> JNull \<longrightarrow>
      (\<exists>st rid. get_prop b ''signedTransaction'' = Inr st \<and> get_prop b ''requestId'' = Inr rid)"
    by (blast intro: get_prop_total)
qed

text \<open>
  C8 at concrete requests, for each handler: a body that cannot be read; the body
  \<open>null\<close>; a body without the fields (empty for the middleware, \<open>{}\<close> for the
  serverless handler); a body with the two fields and a third one, which is not sent
  upstream; and, for the serverless handler, the empty string and an undefined body.
\<close>

theorem execute_validation_and_upstream_request_witness:
  \<open>jupiter_execute sample_rt (Some ''jk'') (empty_post\<lparr>body_stream := Inl NonError\<rparr>) =
     (sendJson 500 [(''error'', ''Jupiter execute request failed.'')], [ReadBody])
   \<and> jupiter_execute sample_rt (Some ''jk'') null_post =
     (sendJson 500 [(''error'', ''Cannot read properties of null (reading ''
        @ [CHR 0x27] @ ''signedTransaction'' @ [CHR 0x27] @ '')'')], [ReadBody])
   \<and> jupiter_execute sample_rt (Some ''jk'') empty_post =
     (\<lparr>statusCode = 400, headers = [(''Content-Type'', ''application/json'')],
       body = ''{"error":"signedTransaction and requestId are required in the Jupiter execute payload."}''\<rparr>,
      [ReadBody])
   \<and> snd (jupiter_execute sample_rt (Some ''jk'') execute_request) =
     [ReadBody,
      Fetch \<lparr>target = ''https://api.jup.ag/ultra/v1/execute'', fetch_method = Some ''POST'',
             fetch_headers = [(''x-api-key'', ''jk''), (''Content-Type'', ''application/json'')],
             fetch_body = Some ''{"signedTransaction":"AQID","requestId":"r-1"}''\<rparr>]
   \<and> vercel_execute sample_rt sample_env (vercel_execute_object\<lparr>vbody := Inl NonError\<rparr>) =
     (status_json 500 [(''error'', ''Jupiter execute request failed.'')], [ReadBody])
   \<and> vercel_execute sample_rt sample_env vercel_execute_null_text =
     (status_json 500 [(''error'', ''Cannot read properties of null (reading ''
        @ [CHR 0x27] @ ''signedTransaction'' @ [CHR 0x27] @ '')'')], [ReadBody])
   \<and> vercel_execute sample_rt sample_env vercel_execute_object =
     (status_json 400 [(''error'',
        ''signedTransaction and requestId are required in the execute payload.'')], [ReadBody])
   \<and> snd (vercel_execute sample_rt sample_env vercel_execute_request) =
     [ReadBody,
      Fetch \<lparr>target = ''https://api.jup.ag/ultra/v1/execute'', fetch_method = Some ''POST'',
             fetch_headers = [(''x-api-key'', ''jk''), (''Content-Type'', ''application/json'')],
             fetch_body = Some ''{"signedTransaction":"AQID","requestId":"r-1"}''\<rparr>]
   \<and> vercel_execute sample_rt sample_env vercel_execute_empty =
     (status_json 500 [(''error'', ''Unexpected end of JSON input'')], [ReadBody])
   \<and> vercel_execute sample_rt sample_env vercel_execute_undefined =
     (status_json 400 [(''error'',
        ''signedTransaction and requestId are required in the execute payload.'')], [ReadBody])
   \<and> (\<exists>st rid. get_prop (JObj []) ''signedTransaction'' = Inr st
          \<and> get_prop (JObj []) ''requestId'' = Inr rid)\<close>
proof -
  let ?body = "JObj [(''signedTransaction'', JStr ''AQID''), (''requestId'', JStr ''r-1''),
                     (''note'', JStr ''x'')]"
  have k: "''jk'' \<noteq> []"
    by simp
  have e: "getApiKey sample_env = Some ''jk''"
    by (simp add: sample_env_def getApiKey_def)
  note dev = execute_validation_and_upstream_request [OF k, THEN conjunct1, rule_format]
  note srv = execute_validation_and_upstream_request [OF k, THEN conjunct2, THEN conjunct1,
      rule_format, OF conjI, OF _ e]
  have "jupiter_execute sample_rt (Some ''jk'') (empty_post\<lparr>body_stream := Inl NonError\<rparr>) =
     (sendJson 500 [(''error'', ''Jupiter execute request failed.'')], [ReadBody])"
    using dev [where req = "empty_post\<lparr>body_stream := Inl NonError\<rparr>" and rt = sample_rt
        and e = NonError, THEN conjunct1]
    by (simp add: empty_post_def readBody_def)
  moreover have "jupiter_execute sample_rt (Some ''jk'') null_post =
     (sendJson 500 [(''error'', ''Cannot read properties of null (reading ''
        @ [CHR 0x27] @ ''signedTransaction'' @ [CHR 0x27] @ '')'')], [ReadBody])"
    using dev [where req = null_post and rt = sample_rt, THEN conjunct2, THEN conjunct1]
    by (simp add: null_post_def readBody_def sample_defs)
  moreover have \<open>jupiter_execute sample_rt (Some ''jk'') empty_post =
     (\<lparr>statusCode = 400, headers = [(''Content-Type'', ''application/json'')],
       body = ''{"error":"signedTransaction and requestId are required in the Jupiter execute payload."}''\<rparr>,
      [ReadBody])\<close>
    using dev [where req = empty_post and rt = sample_rt and chunks = "[]",
        THEN conjunct2, THEN conjunct2, THEN conjunct2, THEN conjunct2]
    by (simp add: empty_post_def sendJson_def stringify_execute_messages)
  moreover have \<open>snd (jupiter_execute sample_rt (Some ''jk'') execute_request) =
     [ReadBody,
      Fetch \<lparr>target = ''https://api.jup.ag/ultra/v1/execute'', fetch_method = Some ''POST'',
             fetch_headers = [(''x-api-key'', ''jk''), (''Content-Type'', ''application/json'')],
             fetch_body = Some ''{"signedTransaction":"AQID","requestId":"r-1"}''\<rparr>]\<close>
    using dev [where req = execute_request and rt = sample_rt and b = ?body
        and s = "''AQID''" and r = "''r-1''",
        THEN conjunct2, THEN conjunct2, THEN conjunct2, THEN conjunct1]
      execute_request_body stringify_execute_body
    by (simp add: execute_request_def JUPITER_ULTRA_BASE_URL_def)
  moreover have "vercel_execute sample_rt sample_env (vercel_execute_object\<lparr>vbody := Inl NonError\<rparr>) =
     (status_json 500 [(''error'', ''Jupiter execute request failed.'')], [ReadBody])"
    using srv [where vreq = "vercel_execute_object\<lparr>vbody := Inl NonError\<rparr>" and rt = sample_rt
        and e = NonError, THEN conjunct1]
    by (simp add: vercel_execute_object_def parseBody_def)
  moreover have "vercel_execute sample_rt sample_env vercel_execute_null_text =
     (status_json 500 [(''error'', ''Cannot read properties of null (reading ''
        @ [CHR 0x27] @ ''signedTransaction'' @ [CHR 0x27] @ '')'')], [ReadBody])"
    using srv [where vreq = vercel_execute_null_text and rt = sample_rt,
        THEN conjunct2, THEN conjunct1]
    by (simp add: vercel_execute_null_text_def parseBody_def sample_rt_def sample_JSON_parse_def)
  moreover have "vercel_execute sample_rt sample_env vercel_execute_object =
     (status_json 400 [(''error'',
        ''signedTransaction and requestId are required in the execute payload.'')], [ReadBody])"
    using srv [where vreq = vercel_execute_object and rt = sample_rt and b = "JObj []"
        and st = None and rid = None, THEN conjunct2, THEN conjunct2, THEN conjunct1]
    by (simp add: vercel_execute_object_def parseBody_def)
  moreover have \<open>snd (vercel_execute sample_rt sample_env vercel_execute_request) =
     [ReadBody,
      Fetch \<lparr>target = ''https://api.jup.ag/ultra/v1/execute'', fetch_method = Some ''POST'',
             fetch_headers = [(''x-api-key'', ''jk''), (''Content-Type'', ''application/json'')],
             fetch_body = Some ''{"signedTransaction":"AQID","requestId":"r-1"}''\<rparr>]\<close>
    using srv [where vreq = vercel_execute_request and rt = sample_rt and b = ?body
        and s = "''AQID''" and r = "''r-1''",
        THEN conjunct2, THEN conjunct2, THEN conjunct2, THEN conjunct1]
      stringify_execute_body
    by (simp add: vercel_execute_request_def parseBody_def JUPITER_ULTRA_BASE_URL_def)
  moreover have "vercel_execute sample_rt sample_env vercel_execute_empty =
     (status_json 500 [(''error'', ''Unexpected end of JSON input'')], [ReadBody])"
    using srv [where vreq = vercel_execute_empty and rt = sample_rt and t = "[]"
        and m = "''Unexpected end of JSON input''",
        THEN conjunct2, THEN conjunct2, THEN conjunct2, THEN conjunct2, THEN conjunct1]
    by (simp add: vercel_execute_empty_def sample_rt_def sample_JSON_parse_def)
  moreover have "vercel_execute sample_rt sample_env vercel_execute_undefined =
     (status_json 400 [(''error'',
        ''signedTransaction and requestId are required in the execute payload.'')], [ReadBody])"
    using srv [where vreq = vercel_execute_undefined and rt = sample_rt,
        THEN conjunct2, THEN conjunct2, THEN conjunct2, THEN conjunct2, THEN conjunct2]
    by (simp add: vercel_execute_undefined_def)
  moreover have "\<exists>st rid. get_prop (JObj []) ''signedTransaction'' = Inr st
      \<and> get_prop (JObj []) ''requestId'' = Inr rid"
    using execute_validation_and_upstream_request [OF k, where b = "JObj []",
        THEN conjunct2, THEN conjunct2]
    by simp
  ultimately show ?thesis
    by blast
qed

text \<open>
  C8 as stated fails in three ways: the serverless handler answers a POST without a body,
  whose \<open>req.body\<close> is the empty string, with 500; its message at the body \<open>{}\<close> is
  not the one of the scenario; and the middleware answers the body \<open>null\<close>, which has
  neither field, with 500.
\<close>

theorem execute_validation_counterexample:
  \<open>vbody vercel_execute_empty = Inr (Some (JStr []))
   \<and> vercel_execute sample_rt sample_env vercel_execute_empty =
       (\<lparr>statusCode = 500, headers = [],
         body = ''{"error":"Unexpected end of JSON input"}''\<rparr>, [ReadBody])
   \<and> fst (vercel_execute sample_rt sample_env vercel_execute_object) =
       \<lparr>statusCode = 400, headers = [],
        body = ''{"error":"signedTransaction and requestId are required in the execute payload."}''\<rparr>
   \<and> body (fst (vercel_execute sample_rt sample_env vercel_execute_object)) \<noteq>
       ''{"error":"signedTransaction and requestId are required in the Jupiter execute payload."}''
   \<and> readBody sample_rt null_post = Inr JNull
   \<and> statusCode (fst (jupiter_execute sample_rt (Some ''jk'') null_post)) = 500\<close>
proof -
  have \<open>vercel_execute sample_rt sample_env vercel_execute_empty =
       (\<lparr>statusCode = 500, headers = [],
         body = ''{"error":"Unexpected end of JSON input"}''\<rparr>, [ReadBody])\<close>
    by (simp add: vercel_execute_def vercel_execute_try_def parseBody_def vercel_execute_empty_def
        catch_json_500_def sample_env_def getApiKey_def sample_rt_def sample_JSON_parse_def
        status_json_def stringify_execute_messages)
  moreover have \<open>fst (vercel_execute sample_rt sample_env vercel_execute_object) =
       \<lparr>statusCode = 400, headers = [],
        body = ''{"error":"signedTransaction and requestId are required in the execute payload."}''\<rparr>\<close>
    by (simp add: vercel_execute_def vercel_execute_try_def parseBody_def vercel_execute_object_def
        catch_json_500_def sample_env_def getApiKey_def status_json_def
        stringify_execute_messages)
  moreover have n: "readBody sample_rt null_post = Inr JNull"
    by (simp add: readBody_def null_post_def sample_defs)
  moreover have "statusCode (fst (jupiter_execute sample_rt (Some ''jk'') null_post)) = 500"
  proof -
    have "http_method null_post = Some ''POST''"
      by (simp add: null_post_def)
    then show ?thesis
      by (simp add: jupiter_execute_configured execute_try_null [OF n] catch_500_catches
          sendJson_def)
  qed
  ultimately show ?thesis
    by (simp add: vercel_execute_empty_def)
qed




text \<open>
  C10, as the code has it. With the secret or key configured, a POST whose body is not
  empty and is rejected by \<open>JSON.parse\<close> is answered, by the signing endpoint and by
  the execute middleware, with 500 and the message of the parser's error, after the
  body has been read; so is, by the serverless execute handler, a POST whose body is a
  string that \<open>JSON.parse\<close> rejects.
\<close>

theorem invalid_json_gives_500:
  assumes "k \<noteq> []" and "JSON_parse rt s = Inl m"
  shows "(http_method req = Some ''POST'' \<and> body_stream req = Inr chunks
            \<and> concat (map (Buffer_toString rt) chunks) = s \<and> s \<noteq> [] \<longrightarrow>
            registerMoonPaySignatureEndpoint rt (Some k) req =
              (sendJson 500 [(''error'', m)], [ReadBody])
            \<and> jupiter_execute rt (Some k) req = (sendJson 500 [(''error'', m)], [ReadBody]))
       \<and> (vmethod vreq = Some ''POST'' \<and> getApiKey env = Some k \<and> vbody vreq = Inr (Some (JStr s)) \<longrightarrow>
            vercel_execute rt env vreq = (status_json 500 [(''error'', m)], [ReadBody]))"
proof (intro conjI impI)
  assume h: "http_method req = Some ''POST'' \<and> body_stream req = Inr chunks
      \<and> concat (map (Buffer_toString rt) chunks) = s \<and> s \<noteq> []"
  with assms(2) have rb: "readBody rt req = Inl (ErrorObj m)"
    by (simp add: readBody_invalid)
  then have "sign_try rt k req = Inl (ErrorObj m)"
    by (rule sign_try_readBody_throws)
  with h assms(1) show "registerMoonPaySignatureEndpoint rt (Some k) req =
      (sendJson 500 [(''error'', m)], [ReadBody])"
    by (simp add: sign_endpoint_catches)
  from rb have "execute_try rt k req = (Inl (ErrorObj m), [ReadBody])"
    by (rule execute_try_readBody_throws)
  with h assms(1) show "jupiter_execute rt (Some k) req =
      (sendJson 500 [(''error'', m)], [ReadBody])"
    by (simp add: jupiter_execute_configured catch_500_catches)
next
  assume h: "vmethod vreq = Some ''POST'' \<and> getApiKey env = Some k \<and> vbody vreq = Inr (Some (JStr s))"
  with assms(2) have "parseBody rt vreq = Inl (ErrorObj m)"
    by (simp add: parseBody_invalid)
  then have "vercel_execute_try rt k vreq = (Inl (ErrorObj m), [ReadBody])"
    by (rule vercel_execute_try_parseBody_throws)
  with h assms(1) show "vercel_execute rt env vreq =
      (status_json 500 [(''error'', m)], [ReadBody])"
    by (simp add: vercel_execute_configured catch_json_500_catches)
qed

text \<open>
  C10 at the body \<open>{\<close>.
\<close>

theorem invalid_json_gives_500_witness:
  "registerMoonPaySignatureEndpoint sample_rt (Some ''k'') bad_json_request =
     (sendJson 500 [(''error'', ''Unexpected end of JSON input'')], [ReadBody])
   \<and> jupiter_execute sample_rt (Some ''k'') bad_json_request =
     (sendJson 500 [(''error'', ''Unexpected end of JSON input'')], [ReadBody])
   \<and> vercel_execute sample_rt (map_of [(''JUPITER_ULTRA_API_KEY'', ''k'')]) vercel_execute_bad_json =
     (status_json 500 [(''error'', ''Unexpected end of JSON input'')], [ReadBody])"
  using invalid_json_gives_500 [where k = "''k''" and rt = sample_rt and s = "''{''"
      and m = "''Unexpected end of JSON input''" and req = bad_json_request and chunks = "[''{'']"
      and vreq = vercel_execute_bad_json and env = "map_of [(''JUPITER_ULTRA_API_KEY'', ''k'')]"]
  by (simp add: bad_json_request_def vercel_execute_bad_json_def sample_defs)

text \<open>
  C10 as stated fails: without a secret the signing endpoint answers a POST of invalid
  JSON with the message about the configuration, not with the one of the parser, whose
  error never occurs.
\<close>

theorem invalid_json_counterexample:
  \<open>JSON_parse sample_rt ''{'' = Inl ''Unexpected end of JSON input''
   \<and> fst (registerMoonPaySignatureEndpoint sample_rt None bad_json_request) =
       \<lparr>statusCode = 500, headers = [(''Content-Type'', ''application/json'')],
        body = ''{"error":"MoonPay secret key is not configured on the server."}''\<rparr>\<close>
  by (simp add: registerMoonPaySignatureEndpoint_def bad_json_request_def
      sample_defs sendJson_def stringify_defs)

end
